theory Spec2Isabelle
  imports Complex_Main
begin

section \<open>Geometry and numbers shared by the combat code\<close>

text \<open>
  The game is written in Python on top of pygame. An object is a record, a method a function
  from the record (and the arguments) to the new record, with the returned value in front
  when there is one. Fields and methods carry the initials of their class
  (\<open>hk\<close> HollowKnightCombat, \<open>ma\<close> MeleeAttack, \<open>cf\<close> CombatFeelEnhancer, \<open>hf\<close> HitFreeze,
  \<open>ss\<close> ScreenShake, \<open>pl\<close> Player, \<open>en\<close> BaseEnemy, \<open>pr\<close> Projectile, \<open>g\<close> Game, \<open>b\<close> BaseBoss,
  \<open>bp\<close> BossPhase, \<open>ap\<close> AttackPattern), because the classes share names (\<open>update\<close>,
  \<open>try_attack\<close>, \<open>is_attacking\<close>, \<open>combo_count\<close>, \<open>rect\<close>, ...). Random numbers are arguments.
  Particle lists, weapon trails, colours, names, sounds and drawing are presentation only and
  are not part of the records; where such code raises, the exception is part of the method.

  Numbers. Python integers are unbounded and are modelled by \<open>int\<close>; Python floats are
  modelled by \<open>real\<close>, and a quantity that the code fills with integers as well as floats
  (health, velocities, cooldowns) is a \<open>real\<close>. Where the code turns a computed float into an
  integer (\<open>int(...)\<close>, or a float coordinate handed to \<open>pygame.Rect\<close>), the rounding of the
  float arithmetic can decide the integer. There the function takes an argument \<open>fl\<close>, one
  for each call: \<open>fl x\<close> stands for the float that the machine computes for the expression
  whose exact value is \<open>x\<close>. Nothing is assumed of \<open>fl\<close>, so a statement for every \<open>fl\<close> holds
  for the arithmetic of the machine; the identity is arithmetic without rounding, and the
  concrete runs below use it only where rounding does not change the integers obtained.

  Exceptions. A method that can raise returns a sum, the exception on the left; the object
  that a raising call leaves behind is then not followed. Only \<open>update\<close> of
  HollowKnightCombat, which raises after the change of phase that the claims are about,
  returns the exception, if any, next to the object as the call leaves it.
\<close>

text \<open>Exceptions that the modelled code can raise.\<close>

datatype error = ZeroDivisionError | AttributeError | TypeError | ModuleNotFoundError | ValueError

text \<open>\<open>pygame.Rect\<close>: integer position and size.\<close>

record Rect =
  r_x :: int
  r_y :: int
  r_w :: int
  r_h :: int

text \<open>pygame computes the centre as \<open>x + (w >> 1)\<close>: half the size, rounded down.\<close>

definition centerx :: "Rect \<Rightarrow> int" where
  "centerx r = r_x r + r_w r div 2"

definition centery :: "Rect \<Rightarrow> int" where
  "centery r = r_y r + r_h r div 2"

text \<open>Truth value of a rectangle (\<open>if hitbox and ...\<close>): both sides non-zero.\<close>

definition rect_bool :: "Rect \<Rightarrow> bool" where
  "rect_bool r = (r_w r \<noteq> 0 \<and> r_h r \<noteq> 0)"

text \<open>\<open>Rect.colliderect\<close> of pygame 2: empty rectangles never collide, touching edges do not count.\<close>

definition colliderect :: "Rect \<Rightarrow> Rect \<Rightarrow> bool" where
  "colliderect a b =
     (if r_w a = 0 \<or> r_h a = 0 \<or> r_w b = 0 \<or> r_h b = 0 then False
      else min (r_x a) (r_x a + r_w a) < max (r_x b) (r_x b + r_w b)
         \<and> min (r_y a) (r_y a + r_h a) < max (r_y b) (r_y b + r_h b)
         \<and> max (r_x a) (r_x a + r_w a) > min (r_x b) (r_x b + r_w b)
         \<and> max (r_y a) (r_y a + r_h a) > min (r_y b) (r_y b + r_h b))"

text \<open>\<open>int(x)\<close> on a float, and the conversion of a float coordinate by \<open>pygame.Rect\<close>: truncation.\<close>

definition py_int :: "real \<Rightarrow> int" where
  "py_int x = (if 0 \<le> x then \<lfloor>x\<rfloor> else \<lceil>x\<rceil>)"

text \<open>\<open>math.atan2(y, x)\<close> and \<open>math.degrees\<close>, over the reals.\<close>

definition atan2 :: "real \<Rightarrow> real \<Rightarrow> real" where
  "atan2 y x =
     (if 0 < x then arctan (y / x)
      else if x < 0 then (if 0 \<le> y then arctan (y / x) + pi else arctan (y / x) - pi)
      else if 0 < y then pi / 2
      else if y < 0 then - pi / 2
      else 0)"

definition degrees :: "real \<Rightarrow> real" where
  "degrees a = a * 180 / pi"

section \<open>CombatFeelEnhancer (systems/combat\_feel.py)\<close>

record CombatFeelEnhancer =
  cf_hit_pause_duration :: int
  cf_hit_pause_timer :: int
  cf_shake_intensity :: int
  cf_shake_duration :: int
  cf_shake_timer :: int
  cf_attack_lock_timer :: int
  cf_combo_window :: int
  cf_combo_timer :: int
  cf_combo_count :: int
  cf_max_combo :: int
  cf_can_cancel :: bool
  cf_cancel_window_start :: int

definition cf_init :: CombatFeelEnhancer where
  "cf_init = \<lparr> cf_hit_pause_duration = 0, cf_hit_pause_timer = 0, cf_shake_intensity = 0,
               cf_shake_duration = 0, cf_shake_timer = 0, cf_attack_lock_timer = 0,
               cf_combo_window = 30, cf_combo_timer = 0, cf_combo_count = 0, cf_max_combo = 4,
               cf_can_cancel = False, cf_cancel_window_start = 5 \<rparr>"

definition cf_trigger_hit_pause :: "int \<Rightarrow> CombatFeelEnhancer \<Rightarrow> CombatFeelEnhancer" where
  "cf_trigger_hit_pause intensity c =
     c\<lparr> cf_hit_pause_duration := intensity, cf_hit_pause_timer := intensity \<rparr>"

definition cf_trigger_screen_shake :: "int \<Rightarrow> int \<Rightarrow> CombatFeelEnhancer \<Rightarrow> CombatFeelEnhancer" where
  "cf_trigger_screen_shake intensity duration c =
     (let c1 = c\<lparr> cf_shake_intensity := max (cf_shake_intensity c) intensity \<rparr>;
          c2 = c1\<lparr> cf_shake_duration := max (cf_shake_duration c1) duration \<rparr>
      in c2\<lparr> cf_shake_timer := cf_shake_duration c2 \<rparr>)"

text \<open>\<open>update\<close> returns \<open>True\<close> to tell the caller to pause the game update.\<close>

definition cf_update :: "CombatFeelEnhancer \<Rightarrow> bool \<times> CombatFeelEnhancer" where
  "cf_update c =
     (if 0 < cf_hit_pause_timer c then
        (True, c\<lparr> cf_hit_pause_timer := cf_hit_pause_timer c - 1 \<rparr>)
      else
        (let c1 = (if 0 < cf_shake_timer c
                   then c\<lparr> cf_shake_timer := cf_shake_timer c - 1 \<rparr> else c);
             c2 = (if 0 < cf_attack_lock_timer c1
                   then c1\<lparr> cf_attack_lock_timer := cf_attack_lock_timer c1 - 1 \<rparr> else c1);
             c3 = (if 0 < cf_combo_timer c2
                   then c2\<lparr> cf_combo_timer := cf_combo_timer c2 - 1 \<rparr>
                   else c2\<lparr> cf_combo_count := 0 \<rparr>)
         in (False, c3)))"

definition cf_is_attack_locked :: "CombatFeelEnhancer \<Rightarrow> bool" where
  "cf_is_attack_locked c = (0 < cf_attack_lock_timer c)"

definition cf_start_attack_lock :: "int \<Rightarrow> CombatFeelEnhancer \<Rightarrow> CombatFeelEnhancer" where
  "cf_start_attack_lock duration c = c\<lparr> cf_attack_lock_timer := duration \<rparr>"

definition cf_register_hit :: "bool \<Rightarrow> CombatFeelEnhancer \<Rightarrow> CombatFeelEnhancer" where
  "cf_register_hit is_heavy c =
     (let c1 = (if is_heavy
                then cf_trigger_screen_shake 8 12 (cf_trigger_hit_pause 5 c)
                else cf_trigger_screen_shake 4 6 (cf_trigger_hit_pause 2 c));
          c2 = (if 0 < cf_combo_timer c1 \<and> cf_combo_count c1 < cf_max_combo c1
                then c1\<lparr> cf_combo_count := cf_combo_count c1 + 1 \<rparr>
                else c1\<lparr> cf_combo_count := 1 \<rparr>)
      in c2\<lparr> cf_combo_timer := cf_combo_window c2 \<rparr>)"

section \<open>HitFreeze and ScreenShake (systems/combat\_system.py)\<close>

record HitFreeze =
  hf_freeze_frames :: int
  hf_max_freeze :: int

definition hf_add_freeze :: "int \<Rightarrow> HitFreeze \<Rightarrow> HitFreeze" where
  "hf_add_freeze frames h =
     (let h1 = h\<lparr> hf_freeze_frames := max (hf_freeze_frames h) frames \<rparr>
      in h1\<lparr> hf_max_freeze := hf_freeze_frames h1 \<rparr>)"

definition hf_is_frozen :: "HitFreeze \<Rightarrow> bool" where
  "hf_is_frozen h = (0 < hf_freeze_frames h)"

definition hf_update :: "HitFreeze \<Rightarrow> HitFreeze" where
  "hf_update h =
     (if 0 < hf_freeze_frames h then h\<lparr> hf_freeze_frames := hf_freeze_frames h - 1 \<rparr> else h)"

record ScreenShake =
  ss_shake_amount :: int
  ss_shake_duration :: int
  ss_shake_offset_x :: int
  ss_shake_offset_y :: int

definition ss_add_shake :: "int \<Rightarrow> int \<Rightarrow> ScreenShake \<Rightarrow> ScreenShake" where
  "ss_add_shake intensity duration s =
     s\<lparr> ss_shake_amount := max (ss_shake_amount s) intensity,
        ss_shake_duration := max (ss_shake_duration s) duration \<rparr>"

text \<open>
  \<open>update\<close> of the screen shake. The arguments are the two values of
  \<open>random.randint(-shake_amount, shake_amount)\<close>, which raises when the range is empty.
\<close>

definition ss_update :: "int \<Rightarrow> int \<Rightarrow> ScreenShake \<Rightarrow> error + ScreenShake" where
  "ss_update rand_x rand_y s =
     (if 0 < ss_shake_duration s then
        (if ss_shake_amount s < 0 then Inl ValueError
         else Inr (s\<lparr> ss_shake_duration := ss_shake_duration s - 1, ss_shake_offset_x := rand_x,
                      ss_shake_offset_y := rand_y,
                      ss_shake_amount := max 0 (ss_shake_amount s - 1) \<rparr>))
      else Inr (s\<lparr> ss_shake_offset_x := 0, ss_shake_offset_y := 0 \<rparr>))"

section \<open>HollowKnightCombat (systems/hollow\_knight\_combat.py)\<close>

datatype AttackType = LIGHT | HEAVY | UPWARD

datatype AttackPhase = NONE | WINDUP | ACTIVE | RECOVERY

text \<open>
  The part of the player object that the combat system reads and writes. The field
  \<open>pl_combat_feel\<close> is \<open>None\<close> when the player object has no \<open>combat_feel\<close> attribute
  (the code asks with \<open>hasattr\<close>).
\<close>

record Player =
  pl_rect :: Rect
  pl_facing_right :: bool
  pl_on_ground :: bool
  pl_velocity_x :: real
  pl_combat_feel :: "CombatFeelEnhancer option"

record Timings =
  windup :: int
  active :: int
  recovery :: int

record HollowKnightCombat =
  hk_player :: Player
  hk_is_attacking :: bool
  hk_attack_type :: "AttackType option"
  hk_attack_phase :: AttackPhase
  hk_attack_timer :: int
  hk_attack_frame :: int
  hk_combo_count :: int
  hk_combo_timer :: int
  hk_combo_window :: int
  hk_next_attack_queued :: bool
  hk_light_timings :: Timings
  hk_heavy_timings :: Timings
  hk_upward_timings :: Timings
  hk_attack_range :: int
  hk_attack_arc :: int
  hk_hit_enemies :: "nat set"

text \<open>The constructor.\<close>

definition hk_init :: "Player \<Rightarrow> HollowKnightCombat" where
  "hk_init p =
     \<lparr> hk_player = p, hk_is_attacking = False, hk_attack_type = None, hk_attack_phase = NONE,
       hk_attack_timer = 0, hk_attack_frame = 0, hk_combo_count = 0, hk_combo_timer = 0,
       hk_combo_window = 15, hk_next_attack_queued = False,
       hk_light_timings = \<lparr> windup = 4, active = 8, recovery = 10 \<rparr>,
       hk_heavy_timings = \<lparr> windup = 8, active = 12, recovery = 18 \<rparr>,
       hk_upward_timings = \<lparr> windup = 5, active = 10, recovery = 12 \<rparr>,
       hk_attack_range = 45, hk_attack_arc = 120, hk_hit_enemies = {} \<rparr>"

definition hk_get_windup_duration :: "HollowKnightCombat \<Rightarrow> int" where
  "hk_get_windup_duration s =
     (case hk_attack_type s of
        Some LIGHT \<Rightarrow> windup (hk_light_timings s)
      | Some HEAVY \<Rightarrow> windup (hk_heavy_timings s)
      | Some UPWARD \<Rightarrow> windup (hk_upward_timings s)
      | None \<Rightarrow> 4)"

definition hk_get_active_duration :: "HollowKnightCombat \<Rightarrow> int" where
  "hk_get_active_duration s =
     (case hk_attack_type s of
        Some LIGHT \<Rightarrow> active (hk_light_timings s)
      | Some HEAVY \<Rightarrow> active (hk_heavy_timings s)
      | Some UPWARD \<Rightarrow> active (hk_upward_timings s)
      | None \<Rightarrow> 8)"

definition hk_get_recovery_duration :: "HollowKnightCombat \<Rightarrow> int" where
  "hk_get_recovery_duration s =
     (case hk_attack_type s of
        Some LIGHT \<Rightarrow> recovery (hk_light_timings s)
      | Some HEAVY \<Rightarrow> recovery (hk_heavy_timings s)
      | Some UPWARD \<Rightarrow> recovery (hk_upward_timings s)
      | None \<Rightarrow> 10)"

definition hk_get_total_duration :: "HollowKnightCombat \<Rightarrow> int" where
  "hk_get_total_duration s =
     hk_get_windup_duration s + hk_get_active_duration s + hk_get_recovery_duration s"

text \<open>\<open>_start_attack\<close>: initialise the attack state, track the combo, push and lock the player.\<close>

definition hk_start_attack :: "HollowKnightCombat \<Rightarrow> HollowKnightCombat" where
  "hk_start_attack s =
     (let s1 = s\<lparr> hk_is_attacking := True, hk_attack_phase := WINDUP, hk_attack_timer := 0,
                  hk_attack_frame := 0, hk_hit_enemies := {} \<rparr>;
          s2 = (if 0 < hk_combo_timer s1
                then s1\<lparr> hk_combo_count := min (hk_combo_count s1 + 1) 2 \<rparr>
                else s1\<lparr> hk_combo_count := 0 \<rparr>);
          s3 = s2\<lparr> hk_combo_timer := hk_combo_window s2 \<rparr>;
          p = hk_player s3;
          p1 = (if pl_on_ground p then
                  (let momentum = (if hk_attack_type s3 = Some LIGHT then 25 / 10 else 2)
                   in if pl_facing_right p
                      then p\<lparr> pl_velocity_x := max (pl_velocity_x p) momentum \<rparr>
                      else p\<lparr> pl_velocity_x := min (pl_velocity_x p) (- momentum) \<rparr>)
                else p);
          p2 = (case pl_combat_feel p1 of
                  None \<Rightarrow> p1
                | Some c \<Rightarrow>
                    p1\<lparr> pl_combat_feel := Some (cf_start_attack_lock (hk_get_windup_duration s3) c) \<rparr>)
      in s3\<lparr> hk_player := p2 \<rparr>)"

text \<open>
  \<open>try_attack(attack_type, is_up_attack)\<close>; the first argument is the string the caller
  passes, of which the code only asks whether it equals \<open>'heavy'\<close>.
\<close>

definition hk_try_attack :: "string \<Rightarrow> bool \<Rightarrow> HollowKnightCombat \<Rightarrow> bool \<times> HollowKnightCombat" where
  "hk_try_attack attack_type is_up_attack s =
     (if hk_is_attacking s then
        (if hk_attack_phase s = ACTIVE
            \<and> real_of_int (hk_attack_timer s) > real_of_int (hk_get_active_duration s) * (6 / 10)
         then (False, s\<lparr> hk_next_attack_queued := True \<rparr>)
         else if hk_attack_phase s = RECOVERY
         then (False, s\<lparr> hk_next_attack_queued := True \<rparr>)
         else (False, s))
      else
        (let s1 = (if is_up_attack then s\<lparr> hk_attack_type := Some UPWARD \<rparr>
                   else if attack_type = ''heavy'' then s\<lparr> hk_attack_type := Some HEAVY \<rparr>
                   else s\<lparr> hk_attack_type := Some LIGHT \<rparr>)
         in (True, hk_start_attack s1)))"

text \<open>
  \<open>_spawn_slash_particles\<close> builds its first particle with \<open>Particle(..., fade=True)\<close>. The
  constructor of \<open>Particle\<close> (world/particles.py) has no parameter \<open>fade\<close> and takes no further
  keywords: the call raises. Nothing of the combat system has been changed by then.
\<close>

definition hk_spawn_slash_particles :: "HollowKnightCombat \<Rightarrow> error option" where
  "hk_spawn_slash_particles s = Some TypeError"

text \<open>
  \<open>_enter_active_phase\<close> sets the phase and then spawns the slash particles (the sound after
  that changes nothing here): the exception of the particles leaves the phase set.
\<close>

definition hk_enter_active_phase :: "HollowKnightCombat \<Rightarrow> error option \<times> HollowKnightCombat" where
  "hk_enter_active_phase s =
     (let s1 = s\<lparr> hk_attack_phase := ACTIVE \<rparr>
      in (hk_spawn_slash_particles s1, s1))"

definition hk_enter_recovery_phase :: "HollowKnightCombat \<Rightarrow> HollowKnightCombat" where
  "hk_enter_recovery_phase s = s\<lparr> hk_attack_phase := RECOVERY \<rparr>"

definition hk_end_attack :: "HollowKnightCombat \<Rightarrow> HollowKnightCombat" where
  "hk_end_attack s =
     (if hk_next_attack_queued s \<and> hk_combo_count s < 2
      then hk_start_attack (s\<lparr> hk_next_attack_queued := False \<rparr>)
      else s\<lparr> hk_is_attacking := False, hk_attack_phase := NONE, hk_attack_timer := 0,
              hk_attack_frame := 0, hk_next_attack_queued := False \<rparr>)"

text \<open>
  \<open>update\<close>: one tick of the combat system. The result is the exception that the call
  raises, if any, and the combat system as the call leaves it.
\<close>

definition hk_update :: "HollowKnightCombat \<Rightarrow> error option \<times> HollowKnightCombat" where
  "hk_update s =
     (let s1 = (if 0 < hk_combo_timer s then
                  (let t = s\<lparr> hk_combo_timer := hk_combo_timer s - 1 \<rparr>
                   in if hk_combo_timer t = 0 then t\<lparr> hk_combo_count := 0 \<rparr> else t)
                else s)
      in if \<not> hk_is_attacking s1 then (None, s1)
         else
           (let s2 = s1\<lparr> hk_attack_timer := hk_attack_timer s1 + 1 \<rparr>
            in case hk_attack_phase s2 of
                 WINDUP \<Rightarrow>
                   if hk_get_windup_duration s2 \<le> hk_attack_timer s2
                   then hk_enter_active_phase s2 else (None, s2)
               | ACTIVE \<Rightarrow>
                   if hk_get_windup_duration s2 + hk_get_active_duration s2 \<le> hk_attack_timer s2
                   then (None, hk_enter_recovery_phase s2) else (None, s2)
               | RECOVERY \<Rightarrow>
                   if hk_get_total_duration s2 \<le> hk_attack_timer s2
                   then (None, hk_end_attack s2) else (None, s2)
               | NONE \<Rightarrow> (None, s2)))"

text \<open>\<open>get_hitbox\<close>: \<open>None\<close> unless the attack is in its active phase.\<close>

definition hk_get_hitbox :: "HollowKnightCombat \<Rightarrow> Rect option" where
  "hk_get_hitbox s =
     (if hk_attack_phase s \<noteq> ACTIVE then None
      else
        (let center_x = centerx (pl_rect (hk_player s));
             center_y = centery (pl_rect (hk_player s));
             rng = hk_attack_range s
         in if hk_attack_type s = Some UPWARD then
              Some \<lparr> r_x = center_x - rng div 2, r_y = center_y - rng, r_w = rng, r_h = rng \<rparr>
            else if pl_facing_right (hk_player s) then
              Some \<lparr> r_x = center_x, r_y = center_y - rng div 2, r_w = rng, r_h = rng \<rparr>
            else
              Some \<lparr> r_x = center_x - rng, r_y = center_y - rng div 2, r_w = rng, r_h = rng \<rparr>))"

text \<open>A target of a hit check: its identity (\<open>id(enemy)\<close>) and its rectangle.\<close>

record Target =
  t_id :: nat
  t_rect :: Rect

definition hk_is_in_attack_arc :: "HollowKnightCombat \<Rightarrow> Target \<Rightarrow> bool" where
  "hk_is_in_attack_arc s e =
     (let dx = centerx (t_rect e) - centerx (pl_rect (hk_player s));
          dy = centery (t_rect e) - centery (pl_rect (hk_player s));
          a = degrees (atan2 (real_of_int dy) (real_of_int dx));
          angle = (if a < 0 then a + 360 else a);
          target_angle = (if hk_attack_type s = Some UPWARD then 270
                          else if pl_facing_right (hk_player s) then 0 else 180);
          d = \<bar>angle - target_angle\<bar>;
          angle_diff = (if 180 < d then 360 - d else d)
      in angle_diff \<le> real_of_int (hk_attack_arc s) / 2)"

text \<open>\<open>check_hit\<close>: the result and the updated combat system.\<close>

definition hk_check_hit :: "HollowKnightCombat \<Rightarrow> Target \<Rightarrow> bool \<times> HollowKnightCombat" where
  "hk_check_hit s e =
     (if \<not> hk_is_attacking s \<or> hk_attack_phase s \<noteq> ACTIVE then (False, s)
      else if t_id e \<in> hk_hit_enemies s then (False, s)
      else
        (case hk_get_hitbox s of
           None \<Rightarrow> (False, s)
         | Some hitbox \<Rightarrow>
             if rect_bool hitbox \<and> colliderect hitbox (t_rect e) then
               (if hk_is_in_attack_arc s e then
                  (let s1 = s\<lparr> hk_hit_enemies := insert (t_id e) (hk_hit_enemies s) \<rparr>;
                       p = hk_player s1;
                       p1 = (case pl_combat_feel p of
                               None \<Rightarrow> p
                             | Some c \<Rightarrow>
                                 p\<lparr> pl_combat_feel :=
                                      Some (cf_register_hit (hk_attack_type s1 = Some HEAVY) c) \<rparr>)
                   in (True, s1\<lparr> hk_player := p1 \<rparr>))
                else (False, s))
             else (False, s)))"

text \<open>
  \<open>get_damage\<close> asks the stats of the player for \<open>get_stat('attack')\<close>. The class
  \<open>PlayerStats\<close> (systems/player\_stats.py) has no method \<open>get_stat\<close> and no \<open>__getattr__\<close>:
  the call raises before anything is computed.
\<close>

definition hk_get_damage :: "HollowKnightCombat \<Rightarrow> error + real" where
  "hk_get_damage s = Inl AttributeError"

subsection \<open>The update of the player (entities/player/player.py)\<close>

text \<open>
  The player and its combat system refer to each other; the record of the combat system,
  which holds the player, stands for both. \<open>Player.update\<close> first updates the combat feel and
  returns at once when that reports a pause. Otherwise it updates the combat system, whose
  exception nothing catches, and goes on with the weapon, the stats, its timers, movement,
  collisions and coins. That last part is the argument \<open>gameplay\<close>: from the combat system and
  the player it holds, which that code reads, to the player it leaves behind and whether the
  update returns \<open>'level_up'\<close>, or to the exception it raises; it does not write to the combat
  system. The result of \<open>pl_update\<close> is whether the update returns \<open>'level_up'\<close>, and the
  combat system with the player.
\<close>

definition pl_update ::
  "(HollowKnightCombat \<Rightarrow> error + bool \<times> Player) \<Rightarrow> HollowKnightCombat
     \<Rightarrow> error + bool \<times> HollowKnightCombat" where
  "pl_update gameplay s =
     (case pl_combat_feel (hk_player s) of
        None \<Rightarrow> Inl AttributeError
      | Some c \<Rightarrow>
          (let is_paused = fst (cf_update c);
               s1 = s\<lparr> hk_player := (hk_player s)\<lparr> pl_combat_feel := Some (snd (cf_update c)) \<rparr> \<rparr>
           in if is_paused then Inr (False, s1)
              else
                (case hk_update s1 of
                   (Some e, s2) \<Rightarrow> Inl e
                 | (None, s2) \<Rightarrow>
                     (case gameplay s2 of
                        Inl e \<Rightarrow> Inl e
                      | Inr (level_up, p) \<Rightarrow> Inr (level_up, s2\<lparr> hk_player := p \<rparr>)))))"

section \<open>The tick of the game (main.py, entities/enemies/projectile.py)\<close>

text \<open>
  An enemy projectile in flight. \<open>update\<close> moves it, sets the centre of its rectangle to the
  truncated position, and removes it from its sprite groups (\<open>kill\<close>) when its lifetime is
  over or it touches one of the platforms given; the result says whether it was removed.
\<close>

record Projectile =
  pr_x :: real
  pr_y :: real
  pr_velocity_x :: real
  pr_velocity_y :: real
  pr_rect :: Rect
  pr_lifetime :: int
  pr_damage :: real

definition pr_update :: "(real \<Rightarrow> real) \<Rightarrow> Rect list \<Rightarrow> Projectile \<Rightarrow> bool \<times> Projectile" where
  "pr_update fl platforms p =
     (let x = fl (pr_x p + pr_velocity_x p);
          y = fl (pr_y p + pr_velocity_y p);
          r1 = (pr_rect p)\<lparr> r_x := py_int x - r_w (pr_rect p) div 2 \<rparr>;
          r2 = r1\<lparr> r_y := py_int y - r_h r1 div 2 \<rparr>;
          p1 = p\<lparr> pr_x := x, pr_y := y, pr_rect := r2, pr_lifetime := pr_lifetime p - 1 \<rparr>
      in (pr_lifetime p1 \<le> 0 \<or> list_ex (colliderect (pr_rect p1)) platforms, p1))"

text \<open>
  The part of the game that \<open>Game.update\<close> is followed through: the two pause flags, the
  player with its combat system, the projectiles (a sprite group, in the order of insertion),
  the screen shake and the hit freeze.
\<close>

record Game =
  g_paused :: bool
  g_show_level_up :: bool
  g_combat :: HollowKnightCombat
  g_projectiles :: "Projectile list"
  g_screen_shake :: ScreenShake
  g_hit_freeze :: HitFreeze

text \<open>
  What one call of \<open>Game.update\<close> takes from the parts of the game that are not followed
  through. The code of the enemies and bosses and of their attacks on the player touches the
  player and the projectile group and nothing else of the record above, so each of these
  steps is a function of the two, or raises:
  \<^item> \<open>fr_gameplay\<close>: the rest of \<open>Player.update\<close>;
  \<^item> \<open>fr_enemies\<close>: the updates of the enemies (an archer adds projectiles);
  \<^item> \<open>fr_float\<close>: the float arithmetic of the tick;
  \<^item> \<open>fr_platforms\<close>: the platforms that the spatial partition returns near a projectile;
  \<^item> \<open>fr_bosses\<close>: activation and update of the bosses, which read the player;
  \<^item> \<open>fr_nearby_enemies\<close>: the enemies that the spatial partition returns for the hitbox of
    the player's attack, and \<open>fr_boss\<close>: the current boss, if any, both as they stand after
    their updates;
  \<^item> \<open>fr_attacks\<close>: the attacks of boss, enemies and projectiles on the player (damage,
    knockback, projectiles used up);
  \<^item> \<open>fr_shake_x\<close>, \<open>fr_shake_y\<close>: the random offsets of the screen shake.
  Audio, the spatial partition itself, the camera, particles, decorations and the health bar
  of the boss change nothing of the record above.
\<close>

record Frame =
  fr_gameplay :: "HollowKnightCombat \<Rightarrow> error + bool \<times> Player"
  fr_enemies :: "Player \<times> Projectile list \<Rightarrow> error + Player \<times> Projectile list"
  fr_float :: "real \<Rightarrow> real"
  fr_platforms :: "Projectile \<Rightarrow> Rect list"
  fr_bosses :: "Player \<Rightarrow> error option"
  fr_nearby_enemies :: "Target list"
  fr_boss :: "Target option"
  fr_attacks :: "Player \<times> Projectile list \<Rightarrow> error + Player \<times> Projectile list"
  fr_shake_x :: int
  fr_shake_y :: int

text \<open>
  The loop over the projectiles: each is updated with the platforms near it; the ones removed
  leave the group.
\<close>

definition game_update_projectiles ::
  "(real \<Rightarrow> real) \<Rightarrow> (Projectile \<Rightarrow> Rect list) \<Rightarrow> Projectile list \<Rightarrow> Projectile list" where
  "game_update_projectiles fl near ps =
     map snd (filter (\<lambda>kp. \<not> fst kp) (map (\<lambda>p. pr_update fl (near p) p) ps))"

text \<open>
  The hit checks of the player's attack against the enemies nearby (main.py, inside
  \<open>try ... except Exception\<close>). After a hit the damage is asked for; its exception ends the
  whole block, the checks still to come included. The result says whether that happened.
  Were the damage returned, it would go to the enemy, which is not part of the record, and
  the loop would go on.
\<close>

fun game_hit_enemies :: "Target list \<Rightarrow> HollowKnightCombat \<Rightarrow> bool \<times> HollowKnightCombat" where
  "game_hit_enemies [] s = (False, s)"
| "game_hit_enemies (enemy # rest) s =
     (if fst (hk_check_hit s enemy) then
        (case hk_get_damage (snd (hk_check_hit s enemy)) of
           Inl e \<Rightarrow> (True, snd (hk_check_hit s enemy))
         | Inr damage \<Rightarrow> game_hit_enemies rest (snd (hk_check_hit s enemy)))
      else game_hit_enemies rest (snd (hk_check_hit s enemy)))"

text \<open>
  The whole block: nothing happens unless an attack is running and has a hitbox; after the
  enemies, the boss is checked when the hitbox touches it (the damage raises there too, and
  the exception is caught).
\<close>

definition game_hit_pass ::
  "Target list \<Rightarrow> Target option \<Rightarrow> HollowKnightCombat \<Rightarrow> HollowKnightCombat" where
  "game_hit_pass nearby_enemies current_boss s =
     (if \<not> hk_is_attacking s then s
      else
        (case hk_get_hitbox s of
           None \<Rightarrow> s
         | Some attack_hitbox \<Rightarrow>
             if \<not> rect_bool attack_hitbox then s
             else
               (let (raised, s1) = game_hit_enemies nearby_enemies s
                in if raised then s1
                   else
                     (case current_boss of
                        None \<Rightarrow> s1
                      | Some boss \<Rightarrow>
                          if colliderect attack_hitbox (t_rect boss)
                          then snd (hk_check_hit s1 boss) else s1))))"

text \<open>
  \<open>Game.update\<close> after the update of the player and the check for a level-up: enemies,
  projectiles, bosses, the hit checks of the player's attack, the attacks on the player, and
  the updates of screen shake and hit freeze. No step asks whether the player is in a hit
  pause or whether the hit freeze is running.
\<close>

definition game_after_player :: "Frame \<Rightarrow> Game \<Rightarrow> error + Game" where
  "game_after_player fr g =
     (case fr_enemies fr (hk_player (g_combat g), g_projectiles g) of
        Inl e \<Rightarrow> Inl e
      | Inr (p1, ps1) \<Rightarrow>
          (let ps2 = game_update_projectiles (fr_float fr) (fr_platforms fr) ps1
           in case fr_bosses fr p1 of
                Some e \<Rightarrow> Inl e
              | None \<Rightarrow>
                  (let s1 = game_hit_pass (fr_nearby_enemies fr) (fr_boss fr)
                              ((g_combat g)\<lparr> hk_player := p1 \<rparr>)
                   in case fr_attacks fr (hk_player s1, ps2) of
                        Inl e \<Rightarrow> Inl e
                      | Inr (p2, ps3) \<Rightarrow>
                          (case ss_update (fr_shake_x fr) (fr_shake_y fr) (g_screen_shake g) of
                             Inl e \<Rightarrow> Inl e
                           | Inr shake \<Rightarrow>
                               Inr (g\<lparr> g_combat := s1\<lparr> hk_player := p2 \<rparr>,
                                       g_projectiles := ps3, g_screen_shake := shake,
                                       g_hit_freeze := hf_update (g_hit_freeze g) \<rparr>)))))"

text \<open>
  \<open>Game.update\<close>: nothing while the game is paused (menu, level-up screen); otherwise the
  update of the player, whose exception nothing catches, the level-up flags, and the rest.
\<close>

definition game_update :: "Frame \<Rightarrow> Game \<Rightarrow> error + Game" where
  "game_update fr g =
     (if g_paused g then Inr g
      else
        (case pl_update (fr_gameplay fr) (g_combat g) of
           Inl e \<Rightarrow> Inl e
         | Inr (level_up, s) \<Rightarrow>
             game_after_player fr
               (if level_up then g\<lparr> g_combat := s, g_show_level_up := True, g_paused := True \<rparr>
                else g\<lparr> g_combat := s \<rparr>)))"

section \<open>MeleeAttack (systems/combat\_system.py)\<close>

text \<open>The constants of class \<open>AttackPhases\<close>.\<close>

datatype AttackPhases = MA_WINDUP | MA_ACTIVE | MA_RECOVERY | MA_NONE

text \<open>
  The stat model of the player, as far as the melee attack reads it. Of the player the attack
  reads the rectangle, the stats and the truth value of the particle group (set, and holding
  at least one sprite): the fields \<open>ma_player_rect\<close>, \<open>ma_player_stats\<close> and
  \<open>ma_player_particle_group\<close>.
\<close>

record Stats =
  st_attack_speed :: real
  st_attack_damage :: real
  st_critical_chance :: real
  st_critical_multiplier :: real

record MeleeAttack =
  ma_player_rect :: Rect
  ma_player_stats :: Stats
  ma_player_particle_group :: bool
  ma_is_attacking :: bool
  ma_attack_frame :: int
  ma_attack_phase :: AttackPhases
  ma_windup_frames :: int
  ma_active_frames :: int
  ma_recovery_frames :: int
  ma_total_frames :: int
  ma_attack_cooldown :: real
  ma_attack_cooldown_max :: int
  ma_combo_count :: int
  ma_max_combo :: int
  ma_combo_timer :: int
  ma_combo_window :: int
  ma_combo_indicator_flash :: int
  ma_charging_heavy :: bool
  ma_heavy_charge_time :: int
  ma_heavy_charge_required :: int
  ma_is_heavy_attack :: bool
  ma_attack_range :: int
  ma_attack_arc :: int
  ma_base_knockback :: real
  ma_mouse_pos :: "int \<times> int"
  ma_attack_angle :: real
  ma_attack_rotation :: real
  ma_attack_direction :: "real \<times> real"
  ma_hit_enemies :: "nat set"
  ma_hit_count_this_attack :: int
  ma_can_cancel :: bool
  ma_cancel_window_start :: int

text \<open>The constructor, for a player with the given rectangle, stats and particle group.\<close>

definition ma_init :: "Rect \<Rightarrow> Stats \<Rightarrow> bool \<Rightarrow> MeleeAttack" where
  "ma_init r st particles =
     \<lparr> ma_player_rect = r, ma_player_stats = st, ma_player_particle_group = particles,
       ma_is_attacking = False, ma_attack_frame = 0,
       ma_attack_phase = MA_NONE, ma_windup_frames = 3, ma_active_frames = 6,
       ma_recovery_frames = 5, ma_total_frames = 3 + 6 + 5, ma_attack_cooldown = 0,
       ma_attack_cooldown_max = 15, ma_combo_count = 0, ma_max_combo = 5, ma_combo_timer = 0,
       ma_combo_window = 45, ma_combo_indicator_flash = 0, ma_charging_heavy = False,
       ma_heavy_charge_time = 0, ma_heavy_charge_required = 30, ma_is_heavy_attack = False,
       ma_attack_range = 50, ma_attack_arc = 90, ma_base_knockback = 12, ma_mouse_pos = (0, 0),
       ma_attack_angle = 0, ma_attack_rotation = 0, ma_attack_direction = (1, 0),
       ma_hit_enemies = {}, ma_hit_count_this_attack = 0, ma_can_cancel = False,
       ma_cancel_window_start = 4 \<rparr>"

definition ma_end_attack :: "MeleeAttack \<Rightarrow> MeleeAttack" where
  "ma_end_attack m =
     m\<lparr> ma_is_attacking := False, ma_attack_frame := 0, ma_attack_phase := MA_NONE,
        ma_is_heavy_attack := False, ma_hit_enemies := {}, ma_can_cancel := False \<rparr>"

text \<open>
  \<open>start_attack(heavy)\<close>. The division \<open>15 / attack_speed_mult\<close> raises when the attack
  speed is zero.
\<close>

definition ma_start_attack :: "(real \<Rightarrow> real) \<Rightarrow> bool \<Rightarrow> MeleeAttack \<Rightarrow> error + MeleeAttack" where
  "ma_start_attack fl heavy m =
     (let m0 = (if ma_is_attacking m then ma_end_attack m else m);
          m1 = m0\<lparr> ma_is_attacking := True, ma_is_heavy_attack := heavy, ma_attack_frame := 0,
                   ma_attack_phase := MA_WINDUP, ma_hit_enemies := {},
                   ma_hit_count_this_attack := 0 \<rparr>;
          dx = real_of_int (fst (ma_mouse_pos m1) - centerx (ma_player_rect m1));
          dy = real_of_int (snd (ma_mouse_pos m1) - centery (ma_player_rect m1));
          magnitude = sqrt (dx * dx + dy * dy);
          m2 = m1\<lparr> ma_attack_angle := atan2 dy dx,
                   ma_attack_direction :=
                     (if 0 < magnitude then (dx / magnitude, dy / magnitude) else (1, 0)) \<rparr>;
          attack_speed_mult = st_attack_speed (ma_player_stats m2)
      in if attack_speed_mult = 0 then Inl ZeroDivisionError
         else
           (let cd_max = max 8 (py_int (fl (15 / attack_speed_mult)));
                m3 = m2\<lparr> ma_attack_cooldown_max := cd_max,
                         ma_attack_cooldown := real_of_int cd_max \<rparr>;
                m4 = (if heavy
                      then m3\<lparr> ma_attack_cooldown := ma_attack_cooldown m3 * (15 / 10),
                              ma_windup_frames := 5, ma_active_frames := 8,
                              ma_recovery_frames := 8 \<rparr>
                      else m3\<lparr> ma_windup_frames := 3, ma_active_frames := 6,
                              ma_recovery_frames := 5 \<rparr>);
                m5 = m4\<lparr> ma_total_frames :=
                           ma_windup_frames m4 + ma_active_frames m4 + ma_recovery_frames m4 \<rparr>;
                m6 = (if 0 < ma_combo_timer m5 \<and> ma_combo_count m5 < ma_max_combo m5
                      then m5\<lparr> ma_combo_count := ma_combo_count m5 + 1 \<rparr>
                      else m5\<lparr> ma_combo_count := 1 \<rparr>)
            in Inr (m6\<lparr> ma_combo_timer := ma_combo_window m6 \<rparr>)))"

definition ma_try_attack ::
  "(real \<Rightarrow> real) \<Rightarrow> bool \<Rightarrow> MeleeAttack \<Rightarrow> error + bool \<times> MeleeAttack" where
  "ma_try_attack fl heavy m =
     (if ma_is_attacking m \<and> \<not> ma_can_cancel m then Inr (False, m)
      else if 0 < ma_attack_cooldown m then Inr (False, m)
      else if heavy then Inr (True, m\<lparr> ma_charging_heavy := True, ma_heavy_charge_time := 0 \<rparr>)
      else (case ma_start_attack fl False m of
              Inl e \<Rightarrow> Inl e
            | Inr m' \<Rightarrow> Inr (True, m')))"

definition ma_release_heavy_attack :: "(real \<Rightarrow> real) \<Rightarrow> MeleeAttack \<Rightarrow> error + MeleeAttack" where
  "ma_release_heavy_attack fl m =
     (if ma_charging_heavy m then
        (case ma_start_attack fl (ma_heavy_charge_required m \<le> ma_heavy_charge_time m) m of
           Inl e \<Rightarrow> Inl e
         | Inr m' \<Rightarrow> Inr (m'\<lparr> ma_charging_heavy := False, ma_heavy_charge_time := 0 \<rparr>))
      else Inr m)"

text \<open>
  \<open>update\<close>: one tick. The progress \<open>attack_frame / total_frames\<close> raises when
  \<open>total_frames\<close> is zero.
\<close>

definition ma_update :: "MeleeAttack \<Rightarrow> error + MeleeAttack" where
  "ma_update m =
     (if ma_is_attacking m \<and> ma_total_frames m = 0 then Inl ZeroDivisionError
      else
        (let m1 =
               (if ma_is_attacking m then
                  (let a = m\<lparr> ma_attack_frame := ma_attack_frame m + 1 \<rparr>;
                       b = (if ma_attack_frame a \<le> ma_windup_frames a
                            then a\<lparr> ma_attack_phase := MA_WINDUP, ma_can_cancel := False \<rparr>
                            else if ma_attack_frame a \<le> ma_windup_frames a + ma_active_frames a
                            then a\<lparr> ma_attack_phase := MA_ACTIVE,
                                    ma_can_cancel := (ma_cancel_window_start a \<le> ma_attack_frame a) \<rparr>
                            else a\<lparr> ma_attack_phase := MA_RECOVERY, ma_can_cancel := True \<rparr>);
                       progress = real_of_int (ma_attack_frame b) / real_of_int (ma_total_frames b);
                       c = b\<lparr> ma_attack_rotation := sin (progress * pi) * 180 \<rparr>
                   in if ma_total_frames c \<le> ma_attack_frame c then ma_end_attack c else c)
                else m);
             m2 = (if 0 < ma_attack_cooldown m1
                   then m1\<lparr> ma_attack_cooldown := ma_attack_cooldown m1 - 1 \<rparr> else m1);
             m3 = (if 0 < ma_combo_timer m2 then
                     (let a = m2\<lparr> ma_combo_timer := ma_combo_timer m2 - 1 \<rparr>;
                          b = (if ma_combo_timer a < 15
                               then a\<lparr> ma_combo_indicator_flash :=
                                         (ma_combo_indicator_flash a + 1) mod 6 \<rparr>
                               else a\<lparr> ma_combo_indicator_flash := 0 \<rparr>)
                      in if ma_combo_timer b = 0 then b\<lparr> ma_combo_count := 0 \<rparr> else b)
                   else m2);
             m4 = (if ma_charging_heavy m3
                   then m3\<lparr> ma_heavy_charge_time := ma_heavy_charge_time m3 + 1 \<rparr> else m3)
         in Inr m4))"

text \<open>\<open>get_attack_hitbox\<close>: \<open>None\<close> unless an attack is running in its active phase.\<close>

definition ma_get_attack_hitbox :: "(real \<Rightarrow> real) \<Rightarrow> MeleeAttack \<Rightarrow> Rect option" where
  "ma_get_attack_hitbox fl m =
     (if \<not> ma_is_attacking m \<or> ma_attack_phase m \<noteq> MA_ACTIVE then None
      else
        (let player_center_x = real_of_int (centerx (ma_player_rect m));
             player_center_y = real_of_int (centery (ma_player_rect m));
             attack_range = (if ma_is_heavy_attack m
                             then fl (real_of_int (ma_attack_range m) * (13 / 10))
                             else real_of_int (ma_attack_range m));
             hitbox_offset_x = cos (ma_attack_angle m) * (attack_range * (6 / 10));
             hitbox_offset_y = sin (ma_attack_angle m) * (attack_range * (6 / 10));
             hitbox_size = (if ma_is_heavy_attack m then attack_range
                            else real_of_int (py_int (fl (attack_range * (85 / 100)))));
             half = real_of_int \<lfloor>hitbox_size / 2\<rfloor>;
             hitbox_x = fl (player_center_x + hitbox_offset_x - half);
             hitbox_y = fl (player_center_y + hitbox_offset_y - half)
         in Some \<lparr> r_x = py_int hitbox_x, r_y = py_int hitbox_y,
                   r_w = py_int hitbox_size, r_h = py_int hitbox_size \<rparr>))"

text \<open>
  \<open>calculate_damage\<close>: the damage and whether it is a critical hit. The argument \<open>roll\<close> is
  the value of \<open>random.random()\<close>. The division by \<open>active_frames\<close> raises when it is zero.
\<close>

definition ma_calculate_damage ::
  "(real \<Rightarrow> real) \<Rightarrow> real \<Rightarrow> MeleeAttack \<Rightarrow> error + int \<times> bool" where
  "ma_calculate_damage fl roll m =
     (let base_damage = st_attack_damage (ma_player_stats m);
          combo_mult = 1 + real_of_int (ma_combo_count m - 1) * (12 / 100);
          heavy_mult = (if ma_is_heavy_attack m then 18 / 10 else 1);
          is_crit = (roll < st_critical_chance (ma_player_stats m));
          crit_mult = (if is_crit then st_critical_multiplier (ma_player_stats m) else 1)
      in if ma_active_frames m = 0 then Inl ZeroDivisionError
         else
           (let phase_progress = real_of_int (ma_attack_frame m - ma_windup_frames m)
                                   / real_of_int (ma_active_frames m);
                phase_mult = 1 + (1 - phase_progress) * (15 / 100);
                total_damage = base_damage * combo_mult * heavy_mult * crit_mult * phase_mult
            in Inr (py_int (fl total_damage), is_crit)))"

text \<open>
  \<open>calculate_knockback\<close>: the knockback vector \<open>(kb_x, kb_y)\<close>. Its local variable
  \<open>knockback_force\<close> is a function of its own here, to be able to speak about it.
\<close>

definition ma_knockback_force :: "MeleeAttack \<Rightarrow> real" where
  "ma_knockback_force m =
     (let base_kb = (if ma_is_heavy_attack m then ma_base_knockback m * (18 / 10)
                     else ma_base_knockback m);
          combo_mult = 1 + real_of_int (ma_combo_count m - 1) * (1 / 10)
      in base_kb * combo_mult)"

definition ma_calculate_knockback :: "MeleeAttack \<Rightarrow> real \<times> real" where
  "ma_calculate_knockback m =
     (let knockback_force = ma_knockback_force m;
          kb_x = fst (ma_attack_direction m) * knockback_force;
          kb_y = snd (ma_attack_direction m) * knockback_force * (7 / 10)
      in (kb_x, kb_y - 2))"

text \<open>The length of a vector.\<close>

definition magnitude :: "real \<times> real \<Rightarrow> real" where
  "magnitude v = sqrt (fst v * fst v + snd v * snd v)"

subsection \<open>The enemy hit by the melee attack (entities/enemies/base\_enemy.py)\<close>

record BaseEnemy =
  en_id :: nat
  en_rect :: Rect
  en_current_health :: real
  en_hit_flash_timer :: int
  en_knockback_x :: real
  en_knockback_y :: real
  en_hitstun_frames :: int
  en_alive :: bool

text \<open>\<open>die\<close> removes the sprite from its groups (\<open>kill\<close>); its particles are not modelled.\<close>

definition en_die :: "BaseEnemy \<Rightarrow> BaseEnemy" where
  "en_die e = e\<lparr> en_alive := False \<rparr>"

definition en_take_damage :: "real \<Rightarrow> BaseEnemy \<Rightarrow> BaseEnemy" where
  "en_take_damage damage e =
     (let e1 = e\<lparr> en_current_health := en_current_health e - damage, en_hit_flash_timer := 4 \<rparr>
      in if en_current_health e1 \<le> 0 then en_die e1 else e1)"

definition en_apply_knockback :: "real \<Rightarrow> real \<Rightarrow> BaseEnemy \<Rightarrow> BaseEnemy" where
  "en_apply_knockback kx ky e = e\<lparr> en_knockback_x := kx, en_knockback_y := ky \<rparr>"

definition en_apply_hitstun :: "int \<Rightarrow> BaseEnemy \<Rightarrow> BaseEnemy" where
  "en_apply_hitstun frames e = e\<lparr> en_hitstun_frames := max (en_hitstun_frames e) frames \<rparr>"

text \<open>
  \<open>spawn_hit_effects\<close> returns at once when the particle group of the player is unset or
  empty. Otherwise it imports \<open>Particle\<close> and \<open>DamageNumber\<close> from a module \<open>platformer_game\<close>,
  which the repository does not have: the import raises.
\<close>

definition ma_spawn_hit_effects :: "MeleeAttack \<Rightarrow> error option" where
  "ma_spawn_hit_effects m =
     (if \<not> ma_player_particle_group m then None else Some ModuleNotFoundError)"

text \<open>
  \<open>check_hit_enemy(enemy, screen_shake, hit_freeze)\<close>: the result and the four objects it
  may change. The argument \<open>roll\<close> is the random number of the damage calculation. The hit
  effects are spawned at the end, on a hit only.
\<close>

definition ma_check_hit_enemy ::
  "(real \<Rightarrow> real) \<Rightarrow> real \<Rightarrow> MeleeAttack \<Rightarrow> BaseEnemy \<Rightarrow> ScreenShake \<Rightarrow> HitFreeze \<Rightarrow>
     error + bool \<times> MeleeAttack \<times> BaseEnemy \<times> ScreenShake \<times> HitFreeze" where
  "ma_check_hit_enemy fl roll m enemy screen_shake hit_freeze =
     (if \<not> ma_is_attacking m \<or> ma_attack_phase m \<noteq> MA_ACTIVE
      then Inr (False, m, enemy, screen_shake, hit_freeze)
      else if en_id enemy \<in> ma_hit_enemies m
      then Inr (False, m, enemy, screen_shake, hit_freeze)
      else
        (case ma_get_attack_hitbox fl m of
           None \<Rightarrow> Inr (False, m, enemy, screen_shake, hit_freeze)
         | Some hitbox \<Rightarrow>
             if colliderect hitbox (en_rect enemy) then
               (let m1 = m\<lparr> ma_hit_enemies := insert (en_id enemy) (ma_hit_enemies m),
                             ma_hit_count_this_attack := ma_hit_count_this_attack m + 1 \<rparr>
                in case ma_calculate_damage fl roll m1 of
                     Inl err \<Rightarrow> Inl err
                   | Inr (damage, is_crit) \<Rightarrow>
                       (let e1 = en_take_damage (real_of_int damage) enemy;
                            kb = ma_calculate_knockback m1;
                            e2 = en_apply_knockback (fst kb) (snd kb) e1;
                            hitstun_frames = (if ma_is_heavy_attack m1 then 12 else 8);
                            e3 = en_apply_hitstun hitstun_frames e2;
                            i0 = (if ma_is_heavy_attack m1 then 6 else 3);
                            shake_intensity = (if is_crit then i0 + 2 else i0);
                            ss1 = ss_add_shake shake_intensity 8 screen_shake;
                            hf1 = (if ma_is_heavy_attack m1 then hf_add_freeze 4 hit_freeze
                                   else if is_crit then hf_add_freeze 2 hit_freeze
                                   else hit_freeze)
                        in case ma_spawn_hit_effects m1 of
                             Some err \<Rightarrow> Inl err
                           | None \<Rightarrow> Inr (True, m1, e3, ss1, hf1)))
             else Inr (False, m, enemy, screen_shake, hit_freeze)))"

section \<open>BaseBoss (entities/enemies/base\_boss.py)\<close>

datatype BossState =
    IDLE | TAUNT | PATTERN_SELECT | ATTACK_WINDUP | ATTACK_EXECUTE | ATTACK_RECOVERY
  | VULNERABLE | PHASE_TRANSITION | STUNNED | DEFEATED

record AttackPattern =
  ap_name :: string
  ap_damage :: int
  ap_windup_frames :: int
  ap_execute_frames :: int
  ap_recovery_frames :: int
  ap_is_special :: bool
  ap_cooldown :: int
  ap_max_cooldown :: int

record BossPhase =
  bp_phase_number :: int
  bp_health_threshold :: real
  bp_attack_patterns :: "AttackPattern list"
  bp_attack_frequency :: int
  bp_special_attack_chance :: real
  bp_transition_played :: bool

text \<open>
  The boss. Phase and pattern objects live in \<open>b_phases\<close>; the reference \<open>current_attack\<close> is
  the position of the pattern object (phase index, pattern index), so that a cooldown written
  through it is seen in the phase, as with the shared object of the code. The reference
  \<open>target_player\<close> is the rectangle of the player it points to.
\<close>

record BaseBoss =
  b_max_health :: real
  b_current_health :: real
  b_rect :: Rect
  b_velocity_x :: real
  b_velocity_y :: real
  b_facing_right :: bool
  b_on_ground :: bool
  b_state :: BossState
  b_state_timer :: int
  b_state_frame :: int
  b_phases :: "BossPhase list"
  b_current_phase_index :: nat
  b_phase_transition_duration :: int
  b_current_attack :: "(nat \<times> nat) option"
  b_attack_timer :: int
  b_attack_cooldown :: int
  b_is_invulnerable :: bool
  b_damage_flash_timer :: int
  b_target_player :: "Rect option"
  b_decision_timer :: int
  b_decision_cooldown :: int
  b_telegraph_alpha :: int
  b_shake_offset_x :: int
  b_shake_offset_y :: int
  b_intro_played :: bool
  b_is_defeated :: bool
  b_can_take_damage :: bool

text \<open>The constructor \<open>BaseBoss(x, y, name, max_health)\<close>.\<close>

definition b_init :: "int \<Rightarrow> int \<Rightarrow> real \<Rightarrow> BaseBoss" where
  "b_init x y max_health =
     \<lparr> b_max_health = max_health, b_current_health = max_health,
       b_rect = \<lparr> r_x = x, r_y = y, r_w = 100, r_h = 120 \<rparr>,
       b_velocity_x = 0, b_velocity_y = 0, b_facing_right = False, b_on_ground = False,
       b_state = IDLE, b_state_timer = 0, b_state_frame = 0, b_phases = [],
       b_current_phase_index = 0, b_phase_transition_duration = 180, b_current_attack = None,
       b_attack_timer = 0, b_attack_cooldown = 0, b_is_invulnerable = False,
       b_damage_flash_timer = 0, b_target_player = None, b_decision_timer = 0,
       b_decision_cooldown = 60, b_telegraph_alpha = 0, b_shake_offset_x = 0,
       b_shake_offset_y = 0, b_intro_played = False, b_is_defeated = False,
       b_can_take_damage = True \<rparr>"

definition new_phase :: "int \<Rightarrow> real \<Rightarrow> AttackPattern list \<Rightarrow> int \<Rightarrow> real \<Rightarrow> BossPhase" where
  "new_phase phase_number health_threshold attack_patterns attack_frequency special_attack_chance =
     \<lparr> bp_phase_number = phase_number, bp_health_threshold = health_threshold,
       bp_attack_patterns = attack_patterns, bp_attack_frequency = attack_frequency,
       bp_special_attack_chance = special_attack_chance, bp_transition_played = False \<rparr>"

text \<open>
  \<open>add_phase\<close>: append, then sort by threshold, highest first. Python's sort is stable; so is
  the insertion of each phase behind the phases of the same or a higher threshold.
\<close>

fun insert_phase :: "BossPhase \<Rightarrow> BossPhase list \<Rightarrow> BossPhase list" where
  "insert_phase p [] = [p]"
| "insert_phase p (q # qs) =
     (if bp_health_threshold q < bp_health_threshold p then p # q # qs
      else q # insert_phase p qs)"

definition b_add_phase :: "BossPhase \<Rightarrow> BaseBoss \<Rightarrow> BaseBoss" where
  "b_add_phase phase b = b\<lparr> b_phases := foldr insert_phase (rev (b_phases b @ [phase])) [] \<rparr>"

text \<open>
  \<open>get_current_phase\<close> returns the position of the phase it selects: the loop takes the first
  phase whose threshold is at least the health fraction, and the last phase when there is none.
  The division raises when \<open>max_health\<close> is zero.
\<close>

fun get_current_phase_loop :: "real \<Rightarrow> BossPhase list \<Rightarrow> nat option" where
  "get_current_phase_loop health_percent [] = None"
| "get_current_phase_loop health_percent (phase # rest) =
     (if health_percent \<le> bp_health_threshold phase then Some 0
      else map_option Suc (get_current_phase_loop health_percent rest))"

definition b_get_current_phase :: "BaseBoss \<Rightarrow> error + nat option" where
  "b_get_current_phase b =
     (if b_phases b = [] then Inr None
      else if b_max_health b = 0 then Inl ZeroDivisionError
      else
        (case get_current_phase_loop (b_current_health b / b_max_health b) (b_phases b) of
           Some i \<Rightarrow> Inr (Some i)
         | None \<Rightarrow> Inr (Some (length (b_phases b) - 1))))"

definition b_check_phase_transition :: "BaseBoss \<Rightarrow> error + bool \<times> BaseBoss" where
  "b_check_phase_transition b =
     (case b_get_current_phase b of
        Inl e \<Rightarrow> Inl e
      | Inr None \<Rightarrow> Inr (False, b)
      | Inr (Some phase_index) \<Rightarrow>
          if phase_index \<noteq> b_current_phase_index b then
            (if \<not> bp_transition_played (b_phases b ! phase_index)
             then Inr (True, b\<lparr> b_current_phase_index := phase_index \<rparr>)
             else Inr (False, b))
          else Inr (False, b))"

definition b_trigger_phase_transition :: "BaseBoss \<Rightarrow> error + BaseBoss" where
  "b_trigger_phase_transition b =
     (let b1 = b\<lparr> b_state := PHASE_TRANSITION, b_state_timer := b_phase_transition_duration b,
                  b_is_invulnerable := True \<rparr>
      in case b_get_current_phase b1 of
           Inl e \<Rightarrow> Inl e
         | Inr None \<Rightarrow> Inr b1
         | Inr (Some i) \<Rightarrow>
             Inr (b1\<lparr> b_phases :=
                        (b_phases b1)[i := (b_phases b1 ! i)\<lparr> bp_transition_played := True \<rparr>] \<rparr>))"

definition b_trigger_defeat :: "BaseBoss \<Rightarrow> BaseBoss" where
  "b_trigger_defeat b = b\<lparr> b_state := DEFEATED, b_is_defeated := True, b_can_take_damage := False \<rparr>"

definition b_play_intro :: "BaseBoss \<Rightarrow> BaseBoss" where
  "b_play_intro b = b\<lparr> b_intro_played := True, b_state := TAUNT, b_state_frame := 0 \<rparr>"

definition b_take_damage :: "real \<Rightarrow> real \<Rightarrow> real \<Rightarrow> BaseBoss \<Rightarrow> error + BaseBoss" where
  "b_take_damage damage knockback_x knockback_y b =
     (if b_is_invulnerable b \<or> \<not> b_can_take_damage b then Inr b
      else
        (let b1 = b\<lparr> b_current_health := b_current_health b - damage,
                     b_damage_flash_timer := 10,
                     b_velocity_x := b_velocity_x b + knockback_x,
                     b_velocity_y := b_velocity_y b + knockback_y \<rparr>
         in case b_check_phase_transition b1 of
              Inl e \<Rightarrow> Inl e
            | Inr (transition, b2) \<Rightarrow>
                (case (if transition then b_trigger_phase_transition b2 else Inr b2) of
                   Inl e \<Rightarrow> Inl e
                 | Inr b3 \<Rightarrow>
                     if b_current_health b3 \<le> 0
                     then Inr (b_trigger_defeat (b3\<lparr> b_current_health := 0 \<rparr>))
                     else Inr b3)))"

subsection \<open>The state machine\<close>

text \<open>
  The random numbers one tick may draw: \<open>random.random()\<close>, the position that
  \<open>random.choice\<close> picks (taken modulo the length of its list), and the two shake offsets.
\<close>

record Rand =
  rnd_random :: real
  rnd_choice :: nat
  rnd_shake_x :: int
  rnd_shake_y :: int

definition current_attack_pattern :: "BaseBoss \<Rightarrow> nat \<times> nat \<Rightarrow> AttackPattern" where
  "current_attack_pattern b ref = bp_attack_patterns (b_phases b ! fst ref) ! snd ref"

definition b_select_attack_pattern :: "Rand \<Rightarrow> BaseBoss \<Rightarrow> error + (nat \<times> nat) option" where
  "b_select_attack_pattern rnd b =
     (case b_get_current_phase b of
        Inl e \<Rightarrow> Inl e
      | Inr None \<Rightarrow> Inr None
      | Inr (Some i) \<Rightarrow>
          (let patterns = bp_attack_patterns (b_phases b ! i);
               available_patterns =
                 filter (\<lambda>j. ap_cooldown (patterns ! j) \<le> 0) [0 ..< length patterns];
               use_special = (rnd_random rnd < bp_special_attack_chance (b_phases b ! i));
               special_patterns = filter (\<lambda>j. ap_is_special (patterns ! j)) available_patterns
           in if available_patterns = [] then Inr None
              else if use_special \<and> special_patterns \<noteq> []
              then Inr (Some (i, special_patterns ! (rnd_choice rnd mod length special_patterns)))
              else Inr (Some (i, available_patterns ! (rnd_choice rnd mod length available_patterns)))))"

definition b_update_idle :: "BaseBoss \<Rightarrow> BaseBoss" where
  "b_update_idle b =
     (let b1 = b\<lparr> b_decision_timer := b_decision_timer b + 1 \<rparr>
      in if b_decision_cooldown b1 \<le> b_decision_timer b1 \<and> b_attack_cooldown b1 \<le> 0
         then b1\<lparr> b_state := PATTERN_SELECT, b_state_frame := 0, b_decision_timer := 0 \<rparr>
         else b1)"

definition b_update_taunt :: "BaseBoss \<Rightarrow> BaseBoss" where
  "b_update_taunt b =
     (if 60 \<le> b_state_frame b then b\<lparr> b_state := IDLE, b_state_frame := 0 \<rparr> else b)"

definition b_update_pattern_select :: "Rand \<Rightarrow> BaseBoss \<Rightarrow> error + BaseBoss" where
  "b_update_pattern_select rnd b =
     (case b_select_attack_pattern rnd b of
        Inl e \<Rightarrow> Inl e
      | Inr None \<Rightarrow> Inr (b\<lparr> b_current_attack := None, b_state := IDLE, b_state_frame := 0 \<rparr>)
      | Inr (Some ref) \<Rightarrow>
          Inr (b\<lparr> b_current_attack := Some ref, b_state := ATTACK_WINDUP, b_state_frame := 0,
                  b_attack_timer := ap_windup_frames (current_attack_pattern b ref) \<rparr>))"

definition b_update_attack_windup :: "(real \<Rightarrow> real) \<Rightarrow> BaseBoss \<Rightarrow> error + BaseBoss" where
  "b_update_attack_windup fl b =
     (case b_current_attack b of
        None \<Rightarrow> Inr (b\<lparr> b_state := IDLE \<rparr>)
      | Some ref \<Rightarrow>
          (let pat = current_attack_pattern b ref
           in if ap_windup_frames pat = 0 then Inl ZeroDivisionError
              else
                (let b1 = b\<lparr> b_telegraph_alpha :=
                               py_int (fl (real_of_int (b_state_frame b)
                                             / real_of_int (ap_windup_frames pat) * 200)) \<rparr>
                 in if ap_windup_frames pat \<le> b_state_frame b1
                    then Inr (b1\<lparr> b_state := ATTACK_EXECUTE, b_state_frame := 0,
                                   b_attack_timer := ap_execute_frames pat \<rparr>)
                    else Inr b1)))"

text \<open>\<open>execute_attack_logic\<close> of the base class does nothing.\<close>

definition b_update_attack_execute :: "BaseBoss \<Rightarrow> BaseBoss" where
  "b_update_attack_execute b =
     (case b_current_attack b of
        None \<Rightarrow> b\<lparr> b_state := IDLE \<rparr>
      | Some ref \<Rightarrow>
          (let pat = current_attack_pattern b ref
           in if ap_execute_frames pat \<le> b_state_frame b
              then b\<lparr> b_state := ATTACK_RECOVERY, b_state_frame := 0,
                      b_attack_timer := ap_recovery_frames pat \<rparr>
              else b))"

definition b_update_attack_recovery :: "BaseBoss \<Rightarrow> BaseBoss" where
  "b_update_attack_recovery b =
     (case b_current_attack b of
        None \<Rightarrow> b\<lparr> b_state := IDLE \<rparr>
      | Some ref \<Rightarrow>
          (let pat = current_attack_pattern b ref
           in if ap_recovery_frames pat \<le> b_state_frame b then
                (let ph = b_phases b ! fst ref;
                     ph1 = ph\<lparr> bp_attack_patterns :=
                                 (bp_attack_patterns ph)
                                   [snd ref := pat\<lparr> ap_cooldown := ap_max_cooldown pat \<rparr>] \<rparr>
                 in b\<lparr> b_phases := (b_phases b)[fst ref := ph1], b_attack_cooldown := 60,
                       b_current_attack := None, b_telegraph_alpha := 0, b_state := IDLE,
                       b_state_frame := 0 \<rparr>)
              else b))"

definition b_update_vulnerable :: "BaseBoss \<Rightarrow> BaseBoss" where
  "b_update_vulnerable b =
     (if 120 \<le> b_state_frame b then b\<lparr> b_state := IDLE, b_state_frame := 0 \<rparr> else b)"

definition b_update_phase_transition :: "Rand \<Rightarrow> BaseBoss \<Rightarrow> BaseBoss" where
  "b_update_phase_transition rnd b =
     (let b1 = (if b_state_frame b mod 10 < 5
                then b\<lparr> b_shake_offset_x := rnd_shake_x rnd, b_shake_offset_y := rnd_shake_y rnd \<rparr>
                else b\<lparr> b_shake_offset_x := 0, b_shake_offset_y := 0 \<rparr>)
      in if b_phase_transition_duration b1 \<le> b_state_frame b1
         then b1\<lparr> b_is_invulnerable := False, b_state := TAUNT, b_state_frame := 0,
                 b_shake_offset_x := 0, b_shake_offset_y := 0 \<rparr>
         else b1)"

definition b_update_stunned :: "BaseBoss \<Rightarrow> BaseBoss" where
  "b_update_stunned b =
     (if 120 \<le> b_state_frame b then b\<lparr> b_state := IDLE, b_state_frame := 0 \<rparr> else b)"

definition b_update_defeated :: "BaseBoss \<Rightarrow> BaseBoss" where
  "b_update_defeated b = b"

definition tick_cooldown :: "AttackPattern \<Rightarrow> AttackPattern" where
  "tick_cooldown pat = (if 0 < ap_cooldown pat then pat\<lparr> ap_cooldown := ap_cooldown pat - 1 \<rparr> else pat)"

text \<open>\<open>update_state_machine(player)\<close>: the argument is the rectangle of the player, if any.\<close>

definition b_update_state_machine ::
  "(real \<Rightarrow> real) \<Rightarrow> Rect option \<Rightarrow> Rand \<Rightarrow> BaseBoss \<Rightarrow> error + BaseBoss" where
  "b_update_state_machine fl player rnd b =
     (let b1 = b\<lparr> b_state_frame := b_state_frame b + 1, b_target_player := player \<rparr>
      in case b_get_current_phase b1 of
           Inl e \<Rightarrow> Inl e
         | Inr current_phase \<Rightarrow>
             (let b2 = (case current_phase of
                          None \<Rightarrow> b1
                        | Some i \<Rightarrow>
                            (let ph = b_phases b1 ! i
                             in b1\<lparr> b_phases :=
                                      (b_phases b1)
                                        [i := ph\<lparr> bp_attack_patterns :=
                                                   map tick_cooldown (bp_attack_patterns ph) \<rparr>] \<rparr>));
                  b3 = (if 0 < b_attack_cooldown b2
                        then b2\<lparr> b_attack_cooldown := b_attack_cooldown b2 - 1 \<rparr> else b2);
                  b4 = (if 0 < b_damage_flash_timer b3
                        then b3\<lparr> b_damage_flash_timer := b_damage_flash_timer b3 - 1 \<rparr> else b3)
              in case b_state b4 of
                   IDLE \<Rightarrow> Inr (b_update_idle b4)
                 | TAUNT \<Rightarrow> Inr (b_update_taunt b4)
                 | PATTERN_SELECT \<Rightarrow> b_update_pattern_select rnd b4
                 | ATTACK_WINDUP \<Rightarrow> b_update_attack_windup fl b4
                 | ATTACK_EXECUTE \<Rightarrow> Inr (b_update_attack_execute b4)
                 | ATTACK_RECOVERY \<Rightarrow> Inr (b_update_attack_recovery b4)
                 | VULNERABLE \<Rightarrow> Inr (b_update_vulnerable b4)
                 | PHASE_TRANSITION \<Rightarrow> Inr (b_update_phase_transition rnd b4)
                 | STUNNED \<Rightarrow> Inr (b_update_stunned b4)
                 | DEFEATED \<Rightarrow> Inr (b_update_defeated b4)))"

subsection \<open>The tick of the boss\<close>

definition rect_bottom :: "Rect \<Rightarrow> int" where
  "rect_bottom r = r_y r + r_h r"

fun b_handle_platform_collision_loop :: "Rect list \<Rightarrow> BaseBoss \<Rightarrow> BaseBoss" where
  "b_handle_platform_collision_loop [] b = b"
| "b_handle_platform_collision_loop (platform # rest) b =
     b_handle_platform_collision_loop rest
       (if colliderect (b_rect b) platform
           \<and> 0 < b_velocity_y b \<and> rect_bottom (b_rect b) \<le> r_y platform + 20
        then b\<lparr> b_rect := (b_rect b)\<lparr> r_y := r_y platform - r_h (b_rect b) \<rparr>,
                b_velocity_y := 0, b_on_ground := True \<rparr>
        else b)"

definition b_handle_platform_collision :: "Rect list \<Rightarrow> BaseBoss \<Rightarrow> BaseBoss" where
  "b_handle_platform_collision platforms b =
     b_handle_platform_collision_loop platforms (b\<lparr> b_on_ground := False \<rparr>)"

text \<open>
  \<open>update(player, platforms)\<close>, one tick of a boss that does not fly (\<open>is_flying\<close> of the
  base class): the state machine, gravity, movement, landing, friction, facing.
\<close>

definition b_update ::
  "(real \<Rightarrow> real) \<Rightarrow> Rect option \<Rightarrow> Rect list \<Rightarrow> Rand \<Rightarrow> BaseBoss \<Rightarrow> error + BaseBoss" where
  "b_update fl player platforms rnd b =
     (if \<not> b_intro_played b then Inr b
      else
        (case b_update_state_machine fl player rnd b of
           Inl e \<Rightarrow> Inl e
         | Inr b1 \<Rightarrow>
             (let b2 = b1\<lparr> b_velocity_y := b_velocity_y b1 + 5 / 10 \<rparr>;
                  b3 = b2\<lparr> b_rect := (b_rect b2)
                             \<lparr> r_x := r_x (b_rect b2) + (py_int (b_velocity_x b2) + b_shake_offset_x b2),
                               r_y := r_y (b_rect b2) + (py_int (b_velocity_y b2) + b_shake_offset_y b2) \<rparr> \<rparr>;
                  b4 = b_handle_platform_collision platforms b3;
                  b5 = b4\<lparr> b_velocity_x := b_velocity_x b4 * (85 / 100) \<rparr>
              in case b_target_player b5 of
                   None \<Rightarrow> Inr b5
                 | Some target \<Rightarrow>
                     if b_state b5 \<noteq> DEFEATED \<and> b_state b5 \<noteq> PHASE_TRANSITION
                     then Inr (b5\<lparr> b_facing_right := (centerx (b_rect b5) < centerx target) \<rparr>)
                     else Inr b5)))"

text \<open>A run of ticks, one input per tick; it stops at the first exception.\<close>

fun b_run ::
  "((real \<Rightarrow> real) \<times> Rect option \<times> Rect list \<times> Rand) list \<Rightarrow> BaseBoss \<Rightarrow> error + BaseBoss" where
  "b_run [] b = Inr b"
| "b_run ((fl, player, platforms, rnd) # rest) b =
     (case b_update fl player platforms rnd b of
        Inl e \<Rightarrow> Inl e
      | Inr b' \<Rightarrow> b_run rest b')"

section \<open>Notions used to state the properties\<close>

subsection \<open>Runs of the directional combat system\<close>

text \<open>
  \<open>n\<close> calls of \<open>update\<close> in a row, as the game makes them: the first exception ends the run.
\<close>

fun hk_run :: "nat \<Rightarrow> HollowKnightCombat \<Rightarrow> error + HollowKnightCombat" where
  "hk_run 0 s = Inr s"
| "hk_run (Suc n) s =
     (case hk_update s of
        (Some e, s') \<Rightarrow> Inl e
      | (None, s') \<Rightarrow> hk_run n s')"

text \<open>
  The combat system as \<open>n\<close> calls of \<open>update\<close> leave it when the caller goes on after an
  exception: a call that raises counts with the state it leaves behind.
\<close>

fun hk_ticks :: "nat \<Rightarrow> HollowKnightCombat \<Rightarrow> HollowKnightCombat" where
  "hk_ticks 0 s = s"
| "hk_ticks (Suc n) s = hk_ticks n (snd (hk_update s))"

text \<open>The combo bookkeeping with which \<open>update\<close> begins.\<close>

definition hk_combo_tick :: "HollowKnightCombat \<Rightarrow> HollowKnightCombat" where
  "hk_combo_tick s =
     (if 0 < hk_combo_timer s then
        (let t = s\<lparr> hk_combo_timer := hk_combo_timer s - 1 \<rparr>
         in if hk_combo_timer t = 0 then t\<lparr> hk_combo_count := 0 \<rparr> else t)
      else s)"

text \<open>A light attack with timings 4/8/10 that has been running for \<open>t\<close> ticks, nothing queued.\<close>

definition light_trace :: "nat \<Rightarrow> HollowKnightCombat \<Rightarrow> bool" where
  "light_trace t s =
     (hk_is_attacking s \<and> hk_attack_type s = Some LIGHT
      \<and> hk_light_timings s = \<lparr> windup = 4, active = 8, recovery = 10 \<rparr>
      \<and> hk_attack_timer s = int t \<and> \<not> hk_next_attack_queued s
      \<and> hk_attack_phase s = (if t < 4 then WINDUP else if t < 12 then ACTIVE else RECOVERY))"

text \<open>
  The window in which \<open>try_attack\<close> queues a follow-up: late in the active phase, or anywhere
  in the recovery.
\<close>

definition hk_cancel_window :: "HollowKnightCombat \<Rightarrow> bool" where
  "hk_cancel_window s =
     (hk_attack_phase s = ACTIVE
        \<and> real_of_int (hk_attack_timer s) > real_of_int (hk_get_active_duration s) * (6 / 10)
      \<or> hk_attack_phase s = RECOVERY)"

text \<open>
  The states the directional combat system can be in: built by the constructor and changed
  by its public methods, whether they return or raise, and by the game moving the player.
\<close>

inductive hk_reachable :: "HollowKnightCombat \<Rightarrow> bool" where
  hk_reach_init: "hk_reachable (hk_init p)"
| hk_reach_try_attack: "hk_reachable s \<Longrightarrow> hk_reachable (snd (hk_try_attack a u s))"
| hk_reach_update: "hk_reachable s \<Longrightarrow> hk_reachable (snd (hk_update s))"
| hk_reach_check_hit: "hk_reachable s \<Longrightarrow> hk_reachable (snd (hk_check_hit s e))"
| hk_reach_player: "hk_reachable s \<Longrightarrow> hk_reachable (s\<lparr> hk_player := p \<rparr>)"



subsection \<open>Runs of the aimed melee attack\<close>

text \<open>
  The states of the melee attack: built by the constructor and changed by its public methods
  when they return, and by the game moving the player and the mouse and changing the stats
  and the particle group.
\<close>

inductive ma_reachable :: "MeleeAttack \<Rightarrow> bool" where
  ma_reach_init: "ma_reachable (ma_init r st pg)"
| ma_reach_try_attack:
    "ma_reachable m \<Longrightarrow> ma_try_attack fl heavy m = Inr (ok, m') \<Longrightarrow> ma_reachable m'"
| ma_reach_release:
    "ma_reachable m \<Longrightarrow> ma_release_heavy_attack fl m = Inr m' \<Longrightarrow> ma_reachable m'"
| ma_reach_start_attack:
    "ma_reachable m \<Longrightarrow> ma_start_attack fl heavy m = Inr m' \<Longrightarrow> ma_reachable m'"
| ma_reach_end_attack: "ma_reachable m \<Longrightarrow> ma_reachable (ma_end_attack m)"
| ma_reach_update:
    "ma_reachable m \<Longrightarrow> ma_update m = Inr m' \<Longrightarrow> ma_reachable m'"
| ma_reach_check_hit:
    "ma_reachable m \<Longrightarrow> ma_check_hit_enemy fl roll m e ss hf = Inr (hit, m', e', ss', hf')
       \<Longrightarrow> ma_reachable m'"
| ma_reach_environment:
    "ma_reachable m \<Longrightarrow>
       ma_reachable (m\<lparr> ma_player_rect := r, ma_player_stats := st,
                        ma_player_particle_group := pg, ma_mouse_pos := mp \<rparr>)"

definition ma_inv :: "MeleeAttack \<Rightarrow> bool" where
  "ma_inv m =
     ((ma_is_attacking m \<or> ma_attack_phase m = MA_NONE)
      \<and> 0 \<le> ma_combo_count m \<and> ma_combo_count m \<le> ma_max_combo m \<and> ma_max_combo m = 5)"

text \<open>The two halves of \<open>update\<close>: the running attack, then the timers.\<close>

definition ma_attack_tick :: "MeleeAttack \<Rightarrow> MeleeAttack" where
  "ma_attack_tick m =
     (if ma_is_attacking m then
        (let a = m\<lparr> ma_attack_frame := ma_attack_frame m + 1 \<rparr>;
             b = (if ma_attack_frame a \<le> ma_windup_frames a
                  then a\<lparr> ma_attack_phase := MA_WINDUP, ma_can_cancel := False \<rparr>
                  else if ma_attack_frame a \<le> ma_windup_frames a + ma_active_frames a
                  then a\<lparr> ma_attack_phase := MA_ACTIVE,
                          ma_can_cancel := (ma_cancel_window_start a \<le> ma_attack_frame a) \<rparr>
                  else a\<lparr> ma_attack_phase := MA_RECOVERY, ma_can_cancel := True \<rparr>);
             progress = real_of_int (ma_attack_frame b) / real_of_int (ma_total_frames b);
             c = b\<lparr> ma_attack_rotation := sin (progress * pi) * 180 \<rparr>
         in if ma_total_frames c \<le> ma_attack_frame c then ma_end_attack c else c)
      else m)"

definition ma_timers_tick :: "MeleeAttack \<Rightarrow> MeleeAttack" where
  "ma_timers_tick m1 =
     (let m2 = (if 0 < ma_attack_cooldown m1
                then m1\<lparr> ma_attack_cooldown := ma_attack_cooldown m1 - 1 \<rparr> else m1);
          m3 = (if 0 < ma_combo_timer m2 then
                  (let a = m2\<lparr> ma_combo_timer := ma_combo_timer m2 - 1 \<rparr>;
                       b = (if ma_combo_timer a < 15
                            then a\<lparr> ma_combo_indicator_flash :=
                                      (ma_combo_indicator_flash a + 1) mod 6 \<rparr>
                            else a\<lparr> ma_combo_indicator_flash := 0 \<rparr>)
                   in if ma_combo_timer b = 0 then b\<lparr> ma_combo_count := 0 \<rparr> else b)
                else m2)
      in if ma_charging_heavy m3
         then m3\<lparr> ma_heavy_charge_time := ma_heavy_charge_time m3 + 1 \<rparr> else m3)"

subsection \<open>The standing of a boss\<close>

text \<open>The terminal state that \<open>trigger_defeat\<close> leaves behind.\<close>

definition b_defeated :: "BaseBoss \<Rightarrow> bool" where
  "b_defeated b = (b_state b = DEFEATED \<and> b_is_defeated b \<and> \<not> b_can_take_damage b)"

text \<open>Two boss states agree on everything that decides the fight.\<close>

definition b_same_standing :: "BaseBoss \<Rightarrow> BaseBoss \<Rightarrow> bool" where
  "b_same_standing b b' =
     (b_state b' = b_state b \<and> b_is_defeated b' = b_is_defeated b
      \<and> b_can_take_damage b' = b_can_take_damage b
      \<and> b_current_health b' = b_current_health b \<and> b_max_health b' = b_max_health b
      \<and> b_current_phase_index b' = b_current_phase_index b
      \<and> b_is_invulnerable b' = b_is_invulnerable b
      \<and> b_intro_played b' = b_intro_played b
      \<and> length (b_phases b') = length (b_phases b))"

subsection \<open>Concrete objects\<close>

definition demo_player :: Player where
  "demo_player =
     \<lparr> pl_rect = \<lparr> r_x = 100, r_y = 200, r_w = 40, r_h = 60 \<rparr>, pl_facing_right = True,
       pl_on_ground = True, pl_velocity_x = 0, pl_combat_feel = Some cf_init \<rparr>"

text \<open>A light attack just started from the initial state.\<close>

definition demo_attack :: HollowKnightCombat where
  "demo_attack = snd (hk_try_attack ''light'' False (hk_init demo_player))"


definition demo_stats :: Stats where
  "demo_stats = \<lparr> st_attack_speed = 1, st_attack_damage = 10, st_critical_chance = 5 / 100,
                  st_critical_multiplier = 15 / 10 \<rparr>"

definition demo_melee :: MeleeAttack where
  "demo_melee = ma_init \<lparr> r_x = 100, r_y = 200, r_w = 40, r_h = 60 \<rparr> demo_stats False"

text \<open>\<open>n\<close> calls of \<open>update\<close> of the melee attack in a row; the first exception ends the run.\<close>

fun ma_run :: "nat \<Rightarrow> MeleeAttack \<Rightarrow> error + MeleeAttack" where
  "ma_run 0 m = Inr m"
| "ma_run (Suc n) m =
     (case ma_update m of
        Inl e \<Rightarrow> Inl e
      | Inr m' \<Rightarrow> ma_run n m')"

text \<open>A light attack requested from the fresh melee attack, and \<open>n\<close> ticks after it.\<close>

definition light_swing :: "nat \<Rightarrow> error + MeleeAttack" where
  "light_swing n =
     (case ma_try_attack id False demo_melee of
        Inl e \<Rightarrow> Inl e
      | Inr (ok, m) \<Rightarrow> ma_run n m)"

text \<open>The melee attack four ticks into that light attack.\<close>

definition swinging_melee :: MeleeAttack where
  "swinging_melee =
     (case light_swing 4 of
        Inr m \<Rightarrow> m
      | Inl e \<Rightarrow> demo_melee)"



definition demo_shake :: ScreenShake where
  "demo_shake = \<lparr> ss_shake_amount = 0, ss_shake_duration = 0, ss_shake_offset_x = 0,
                  ss_shake_offset_y = 0 \<rparr>"

definition demo_freeze :: HitFreeze where
  "demo_freeze = \<lparr> hf_freeze_frames = 0, hf_max_freeze = 0 \<rparr>"

text \<open>
  A boss with 100 health and three phases at the thresholds 1.0, 0.66 and 0.33, as the
  Shadow Knight has them (the attack patterns play no part and are left out).
\<close>

definition three_phase_boss :: BaseBoss where
  "three_phase_boss =
     b_add_phase (new_phase 3 (33 / 100) [] 70 (35 / 100))
       (b_add_phase (new_phase 2 (66 / 100) [] 90 (25 / 100))
          (b_add_phase (new_phase 1 1 [] 120 (2 / 10)) (b_init 0 0 100)))"

text \<open>The same boss after its intro and a blow of 100.\<close>

definition slain_boss :: BaseBoss where
  "slain_boss =
     (case b_take_damage 100 0 0 (b_play_intro three_phase_boss) of
        Inr b \<Rightarrow> b
      | Inl e \<Rightarrow> three_phase_boss)"

definition no_rand :: Rand where
  "no_rand = \<lparr> rnd_random = 0, rnd_choice = 0, rnd_shake_x = 0, rnd_shake_y = 0 \<rparr>"

text \<open>A fresh combat feel that has registered one light hit: the hit pause has begun.\<close>

definition hit_feel :: CombatFeelEnhancer where
  "hit_feel = cf_register_hit False cf_init"

text \<open>
  A soul bolt flying to the right, far from the player, as
  \<open>Projectile(500, 100, 600, 100, 10, 6, 'soul_bolt')\<close> builds it.
\<close>

definition demo_bolt :: Projectile where
  "demo_bolt =
     \<lparr> pr_x = 500, pr_y = 100, pr_velocity_x = 6, pr_velocity_y = 0,
       pr_rect = \<lparr> r_x = 494, r_y = 94, r_w = 12, r_h = 12 \<rparr>, pr_lifetime = 180,
       pr_damage = 10 \<rparr>"

text \<open>A running game: the player has not attacked yet, and the bolt is in the air.\<close>

definition demo_game :: Game where
  "demo_game =
     \<lparr> g_paused = False, g_show_level_up = False, g_combat = hk_init demo_player,
       g_projectiles = [demo_bolt], g_screen_shake = demo_shake, g_hit_freeze = demo_freeze \<rparr>"

text \<open>
  The same game in a hit pause: the combat feel of the player has registered a hit, and the
  hit freeze has been given four frames.
\<close>

definition frozen_game :: Game where
  "frozen_game =
     demo_game\<lparr> g_combat := hk_init (demo_player\<lparr> pl_combat_feel := Some hit_feel \<rparr>),
                g_hit_freeze := hf_add_freeze 4 demo_freeze \<rparr>"

text \<open>
  A tick in a level without enemies, far from the bosses and from any platform: the code
  outside the record has nothing to do. The rest of the update of the player leaves the
  player standing.
\<close>

definition quiet_frame :: Frame where
  "quiet_frame =
     \<lparr> fr_gameplay = (\<lambda>s. Inr (False, hk_player s)), fr_enemies = Inr, fr_float = (\<lambda>x. x),
       fr_platforms = (\<lambda>p. []), fr_bosses = (\<lambda>p. None), fr_nearby_enemies = [],
       fr_boss = None, fr_attacks = Inr, fr_shake_x = 0, fr_shake_y = 0 \<rparr>"

section \<open>Auxiliary facts\<close>

subsection \<open>The directional combat system\<close>

lemma hk_start_attack_sel:
  "hk_is_attacking (hk_start_attack s)"
  "hk_attack_phase (hk_start_attack s) = WINDUP"
  "hk_attack_timer (hk_start_attack s) = 0"
  "hk_attack_frame (hk_start_attack s) = 0"
  "hk_hit_enemies (hk_start_attack s) = {}"
  "hk_combo_count (hk_start_attack s) =
     (if 0 < hk_combo_timer s then min (hk_combo_count s + 1) 2 else 0)"
  "hk_combo_timer (hk_start_attack s) = hk_combo_window s"
  "hk_combo_window (hk_start_attack s) = hk_combo_window s"
  "hk_next_attack_queued (hk_start_attack s) = hk_next_attack_queued s"
  "hk_attack_type (hk_start_attack s) = hk_attack_type s"
  "hk_light_timings (hk_start_attack s) = hk_light_timings s"
  "hk_heavy_timings (hk_start_attack s) = hk_heavy_timings s"
  "hk_upward_timings (hk_start_attack s) = hk_upward_timings s"
  by (simp_all add: hk_start_attack_def Let_def)

lemma hk_try_attack_idle:
  assumes "\<not> hk_is_attacking s"
  shows "fst (hk_try_attack a u s)"
    and "hk_attack_phase (snd (hk_try_attack a u s)) = WINDUP"
    and "hk_attack_timer (snd (hk_try_attack a u s)) = 0"
    and "hk_is_attacking (snd (hk_try_attack a u s))"
    and "hk_hit_enemies (snd (hk_try_attack a u s)) = {}"
    and "hk_next_attack_queued (snd (hk_try_attack a u s)) = hk_next_attack_queued s"
    and "hk_light_timings (snd (hk_try_attack a u s)) = hk_light_timings s"
    and "hk_attack_type (snd (hk_try_attack a u s)) =
           Some (if u then UPWARD else if a = ''heavy'' then HEAVY else LIGHT)"
  using assms by (simp_all add: hk_try_attack_def Let_def hk_start_attack_sel)

lemma hk_try_attack_busy:
  assumes "hk_is_attacking s"
  shows "hk_try_attack a u s =
           (False, if hk_cancel_window s then s\<lparr> hk_next_attack_queued := True \<rparr> else s)"
  using assms by (auto simp add: hk_try_attack_def hk_cancel_window_def)

lemma light_trace_start:
  assumes "\<not> hk_is_attacking s" "\<not> hk_next_attack_queued s"
    "hk_light_timings s = \<lparr> windup = 4, active = 8, recovery = 10 \<rparr>"
  shows "light_trace 0 (snd (hk_try_attack ''light'' False s))"
  using assms by (simp add: light_trace_def hk_try_attack_idle)

lemma light_trace_durations:
  assumes "light_trace t s"
  shows "hk_get_windup_duration (s\<lparr> hk_attack_timer := x \<rparr>) = 4"
    and "hk_get_active_duration (s\<lparr> hk_attack_timer := x \<rparr>) = 8"
    and "hk_get_recovery_duration (s\<lparr> hk_attack_timer := x \<rparr>) = 10"
    and "hk_get_total_duration (s\<lparr> hk_attack_timer := x \<rparr>) = 22"
  using assms
  by (simp_all add: light_trace_def hk_get_windup_duration_def hk_get_active_duration_def
      hk_get_recovery_duration_def hk_get_total_duration_def)

lemma hk_combo_tick_sel [simp]:
  "hk_is_attacking (hk_combo_tick s) = hk_is_attacking s"
  "hk_attack_type (hk_combo_tick s) = hk_attack_type s"
  "hk_attack_phase (hk_combo_tick s) = hk_attack_phase s"
  "hk_attack_timer (hk_combo_tick s) = hk_attack_timer s"
  "hk_next_attack_queued (hk_combo_tick s) = hk_next_attack_queued s"
  "hk_light_timings (hk_combo_tick s) = hk_light_timings s"
  "hk_heavy_timings (hk_combo_tick s) = hk_heavy_timings s"
  "hk_upward_timings (hk_combo_tick s) = hk_upward_timings s"
  "hk_hit_enemies (hk_combo_tick s) = hk_hit_enemies s"
  "hk_combo_window (hk_combo_tick s) = hk_combo_window s"
  by (simp_all add: hk_combo_tick_def Let_def)

lemma hk_combo_tick_count:
  "hk_combo_count (hk_combo_tick s) = (if hk_combo_timer s = 1 then 0 else hk_combo_count s)"
  "hk_combo_timer (hk_combo_tick s) = (if 0 < hk_combo_timer s then hk_combo_timer s - 1 else hk_combo_timer s)"
  by (simp_all add: hk_combo_tick_def Let_def)

lemma hk_update_pair:
  "hk_update s =
     (let s1 = hk_combo_tick s
      in if \<not> hk_is_attacking s1 then (None, s1)
         else
           (let s2 = s1\<lparr> hk_attack_timer := hk_attack_timer s1 + 1 \<rparr>
            in case hk_attack_phase s2 of
                 WINDUP \<Rightarrow>
                   if hk_get_windup_duration s2 \<le> hk_attack_timer s2
                   then hk_enter_active_phase s2 else (None, s2)
               | ACTIVE \<Rightarrow>
                   if hk_get_windup_duration s2 + hk_get_active_duration s2 \<le> hk_attack_timer s2
                   then (None, hk_enter_recovery_phase s2) else (None, s2)
               | RECOVERY \<Rightarrow>
                   if hk_get_total_duration s2 \<le> hk_attack_timer s2
                   then (None, hk_end_attack s2) else (None, s2)
               | NONE \<Rightarrow> (None, s2)))"
  unfolding hk_update_def hk_combo_tick_def by (rule refl)

lemma hk_enter_active_phase_eq:
  "hk_enter_active_phase s = (Some TypeError, s\<lparr> hk_attack_phase := ACTIVE \<rparr>)"
  by (simp add: hk_enter_active_phase_def hk_spawn_slash_particles_def Let_def)

text \<open>The state that \<open>update\<close> leaves, whether it returns or raises.\<close>

lemma hk_update_unfold:
  "snd (hk_update s) =
     (let s1 = hk_combo_tick s
      in if \<not> hk_is_attacking s1 then s1
         else
           (let s2 = s1\<lparr> hk_attack_timer := hk_attack_timer s1 + 1 \<rparr>
            in case hk_attack_phase s2 of
                 WINDUP \<Rightarrow>
                   if hk_get_windup_duration s2 \<le> hk_attack_timer s2
                   then s2\<lparr> hk_attack_phase := ACTIVE \<rparr> else s2
               | ACTIVE \<Rightarrow>
                   if hk_get_windup_duration s2 + hk_get_active_duration s2 \<le> hk_attack_timer s2
                   then hk_enter_recovery_phase s2 else s2
               | RECOVERY \<Rightarrow>
                   if hk_get_total_duration s2 \<le> hk_attack_timer s2
                   then hk_end_attack s2 else s2
               | NONE \<Rightarrow> s2))"
  by (simp add: hk_update_pair hk_enter_active_phase_eq Let_def split: AttackPhase.split)

lemma hk_windup_tick:
  "hk_get_windup_duration ((hk_combo_tick s)\<lparr> hk_attack_timer := x \<rparr>) = hk_get_windup_duration s"
  by (simp add: hk_get_windup_duration_def split: option.split AttackType.split)

text \<open>The exception of \<open>update\<close>: raised exactly by the tick that ends the windup.\<close>

lemma hk_update_raises:
  "fst (hk_update s) =
     (if hk_is_attacking s \<and> hk_attack_phase s = WINDUP
         \<and> hk_get_windup_duration s \<le> hk_attack_timer s + 1
      then Some TypeError else None)"
  by (simp add: hk_update_pair hk_enter_active_phase_eq Let_def hk_windup_tick
      split: AttackPhase.split)

lemma light_trace_combo_tick: "light_trace t (hk_combo_tick s) = light_trace t s"
  by (simp add: light_trace_def)

lemma light_trace_step:
  assumes "light_trace t s" "t < 21"
  shows "light_trace (Suc t) (snd (hk_update s))"
proof -
  let ?s1 = "hk_combo_tick s"
  have l: "light_trace t ?s1" using assms(1) by (simp add: light_trace_combo_tick)
  note d = light_trace_durations[OF l]
  have att: "hk_is_attacking ?s1" using l by (simp add: light_trace_def)
  consider (w) "t < 3" | (wa) "t = 3" | (a) "4 \<le> t" "t < 11" | (ar) "t = 11" | (r) "12 \<le> t"
    by linarith
  then show ?thesis
  proof cases
    case w
    with l show ?thesis
      by (simp add: hk_update_unfold Let_def d att light_trace_def)
  next
    case wa
    with l show ?thesis
      by (simp add: hk_update_unfold Let_def d att light_trace_def )
  next
    case a
    with l show ?thesis
      by (simp add: hk_update_unfold Let_def d att light_trace_def)
  next
    case ar
    with l show ?thesis
      by (simp add: hk_update_unfold Let_def d att light_trace_def hk_enter_recovery_phase_def)
  next
    case r
    with l assms(2) show ?thesis
      by (simp add: hk_update_unfold Let_def d att light_trace_def)
  qed
qed

lemma light_trace_end:
  assumes "light_trace 21 s"
  shows "\<not> hk_is_attacking (snd (hk_update s)) \<and> hk_attack_phase (snd (hk_update s)) = NONE"
proof -
  let ?s1 = "hk_combo_tick s"
  have l: "light_trace 21 ?s1" using assms(1) by (simp add: light_trace_combo_tick)
  note d = light_trace_durations[OF l]
  have att: "hk_is_attacking ?s1" using l by (simp add: light_trace_def)
  from l show ?thesis
    by (simp add: hk_update_unfold Let_def d att light_trace_def hk_end_attack_def)
qed

lemma light_trace_ticks:
  "light_trace t s \<Longrightarrow> t + n \<le> 21 \<Longrightarrow> light_trace (t + n) (hk_ticks n s)"
proof (induction n arbitrary: t s)
  case 0
  then show ?case by simp
next
  case (Suc n)
  have "light_trace (Suc t) (snd (hk_update s))"
    using Suc.prems by (intro light_trace_step) simp_all
  from Suc.IH[OF this] Suc.prems(2) show ?case by simp
qed

lemma hk_ticks_Suc_end: "hk_ticks (Suc n) s = snd (hk_update (hk_ticks n s))"
  by (induction n arbitrary: s) simp_all

lemma hk_get_hitbox_active: "(hk_get_hitbox s \<noteq> None) = (hk_attack_phase s = ACTIVE)"
  by (simp add: hk_get_hitbox_def Let_def)


lemma hk_check_hit_cases:
  "hk_check_hit s e = (False, s)
   \<or> (fst (hk_check_hit s e) \<and> t_id e \<notin> hk_hit_enemies s
      \<and> hk_hit_enemies (snd (hk_check_hit s e)) = insert (t_id e) (hk_hit_enemies s)
      \<and> hk_combo_count (snd (hk_check_hit s e)) = hk_combo_count s)"
  by (simp add: hk_check_hit_def Let_def split: option.split)




lemma hk_combo_bound_update:
  assumes "0 \<le> hk_combo_count s \<and> hk_combo_count s \<le> 2"
  shows "0 \<le> hk_combo_count (snd (hk_update s)) \<and> hk_combo_count (snd (hk_update s)) \<le> 2"
proof -
  have c: "0 \<le> hk_combo_count (hk_combo_tick s) \<and> hk_combo_count (hk_combo_tick s) \<le> 2"
    using assms by (simp add: hk_combo_tick_count)
  show ?thesis
    using c
    by (cases "hk_attack_phase s")
       (simp_all add: hk_update_unfold Let_def 
          hk_enter_recovery_phase_def hk_end_attack_def hk_start_attack_sel)
qed

lemma hk_combo_bound_try_attack:
  assumes "0 \<le> hk_combo_count s \<and> hk_combo_count s \<le> 2"
  shows "0 \<le> hk_combo_count (snd (hk_try_attack a u s))
       \<and> hk_combo_count (snd (hk_try_attack a u s)) \<le> 2"
proof (cases "hk_is_attacking s")
  case True
  then show ?thesis using assms by (simp add: hk_try_attack_busy)
next
  case False
  then show ?thesis using assms
    by (simp add: hk_try_attack_def Let_def hk_start_attack_sel)
qed

lemma hk_reachable_combo_bound:
  "hk_reachable s \<Longrightarrow> 0 \<le> hk_combo_count s \<and> hk_combo_count s \<le> 2"
proof (induction rule: hk_reachable.induct)
  case (hk_reach_init p)
  show ?case by (simp add: hk_init_def)
next
  case (hk_reach_try_attack s a u)
  then show ?case by (intro hk_combo_bound_try_attack)
next
  case (hk_reach_update s)
  then show ?case by (intro hk_combo_bound_update)
next
  case (hk_reach_check_hit s e)
  then show ?case using hk_check_hit_cases[of s e] by auto
next
  case (hk_reach_player s p)
  then show ?case by simp
qed

lemma hk_update_combo_expiry:
  assumes "hk_combo_timer s = 1"
  shows "hk_combo_count (snd (hk_update s)) = 0"
proof -
  have c: "hk_combo_count (hk_combo_tick s) = 0" "hk_combo_timer (hk_combo_tick s) = 0"
    using assms by (simp_all add: hk_combo_tick_count)
  show ?thesis
    using c
    by (cases "hk_attack_phase s")
       (simp_all add: hk_update_unfold Let_def 
          hk_enter_recovery_phase_def hk_end_attack_def hk_start_attack_sel)
qed

subsection \<open>The aimed melee attack\<close>

lemma ma_end_attack_sel:
  "ma_is_attacking (ma_end_attack m) = False"
  "ma_attack_phase (ma_end_attack m) = MA_NONE"
  "ma_hit_enemies (ma_end_attack m) = {}"
  "ma_combo_count (ma_end_attack m) = ma_combo_count m"
  "ma_combo_timer (ma_end_attack m) = ma_combo_timer m"
  "ma_max_combo (ma_end_attack m) = ma_max_combo m"
  "ma_player_stats (ma_end_attack m) = ma_player_stats m"
  "ma_attack_cooldown (ma_end_attack m) = ma_attack_cooldown m"
  "ma_combo_indicator_flash (ma_end_attack m) = ma_combo_indicator_flash m"
  "ma_charging_heavy (ma_end_attack m) = ma_charging_heavy m"
  by (simp_all add: ma_end_attack_def)

lemma ma_start_attack_error:
  "st_attack_speed (ma_player_stats m) = 0 \<Longrightarrow> ma_start_attack fl heavy m = Inl ZeroDivisionError"
  by (cases "ma_is_attacking m") (simp_all add: ma_start_attack_def Let_def ma_end_attack_sel)

lemma ma_start_attack_ok:
  assumes "st_attack_speed (ma_player_stats m) \<noteq> 0"
  shows "\<exists>m'. ma_start_attack fl heavy m = Inr m' \<and> ma_is_attacking m'
       \<and> ma_attack_phase m' = MA_WINDUP \<and> ma_attack_frame m' = 0 \<and> ma_hit_enemies m' = {}
       \<and> ma_max_combo m' = ma_max_combo m
       \<and> ma_combo_count m' =
           (if 0 < ma_combo_timer m \<and> ma_combo_count m < ma_max_combo m
            then ma_combo_count m + 1 else 1)"
  using assms
  by (cases "ma_is_attacking m"; cases heavy)
     (simp_all add: ma_start_attack_def Let_def ma_end_attack_sel)

lemma ma_start_attack_result:
  assumes "ma_start_attack fl heavy m = Inr m'"
  shows "ma_is_attacking m' \<and> ma_attack_phase m' = MA_WINDUP \<and> ma_attack_frame m' = 0
       \<and> ma_hit_enemies m' = {} \<and> ma_max_combo m' = ma_max_combo m
       \<and> ma_combo_count m' =
           (if 0 < ma_combo_timer m \<and> ma_combo_count m < ma_max_combo m
            then ma_combo_count m + 1 else 1)"
proof (cases "st_attack_speed (ma_player_stats m) = 0")
  case True
  then show ?thesis using assms ma_start_attack_error[of m fl heavy] by simp
next
  case False
  from ma_start_attack_ok[OF False, of fl heavy] assms show ?thesis by auto
qed

lemma ma_try_attack_rejected:
  "ma_is_attacking m \<and> \<not> ma_can_cancel m \<or> 0 < ma_attack_cooldown m
     \<Longrightarrow> ma_try_attack fl heavy m = Inr (False, m)"
  by (auto simp add: ma_try_attack_def)

lemma ma_try_attack_accepted:
  assumes "\<not> (ma_is_attacking m \<and> \<not> ma_can_cancel m)" "\<not> 0 < ma_attack_cooldown m"
  shows "ma_try_attack fl heavy m =
           (if heavy then Inr (True, m\<lparr> ma_charging_heavy := True, ma_heavy_charge_time := 0 \<rparr>)
            else case ma_start_attack fl False m of Inl e \<Rightarrow> Inl e | Inr m' \<Rightarrow> Inr (True, m'))"
  using assms by (auto simp add: ma_try_attack_def)

lemma ma_inv_start_attack:
  assumes "ma_inv m" "ma_start_attack fl heavy m = Inr m'"
  shows "ma_inv m'"
  using assms(1) ma_start_attack_result[OF assms(2)] by (auto simp: ma_inv_def)

lemma ma_inv_try_attack:
  assumes "ma_inv m" "ma_try_attack fl heavy m = Inr (ok, m')"
  shows "ma_inv m'"
proof (cases "ma_is_attacking m \<and> \<not> ma_can_cancel m \<or> 0 < ma_attack_cooldown m")
  case True
  from ma_try_attack_rejected[OF True, of fl heavy] assms show ?thesis by simp
next
  case False
  then have eq: "ma_try_attack fl heavy m =
           (if heavy then Inr (True, m\<lparr> ma_charging_heavy := True, ma_heavy_charge_time := 0 \<rparr>)
            else case ma_start_attack fl False m of Inl e \<Rightarrow> Inl e | Inr m' \<Rightarrow> Inr (True, m'))"
    by (intro ma_try_attack_accepted) auto
  show ?thesis
  proof (cases heavy)
    case True
    then show ?thesis using eq assms by (auto simp: ma_inv_def)
  next
    case False
    then obtain m1 where "ma_start_attack fl False m = Inr m1" "m' = m1"
      using eq assms(2) by (auto split: sum.splits)
    then show ?thesis using assms(1) ma_inv_start_attack by blast
  qed
qed

lemma ma_inv_release:
  assumes "ma_inv m" "ma_release_heavy_attack fl m = Inr m'"
  shows "ma_inv m'"
proof (cases "ma_charging_heavy m")
  case False
  then show ?thesis using assms by (simp add: ma_release_heavy_attack_def)
next
  case True
  then obtain m1 where s: "ma_start_attack fl (ma_heavy_charge_required m \<le> ma_heavy_charge_time m) m = Inr m1"
    and m': "m' = m1\<lparr> ma_charging_heavy := False, ma_heavy_charge_time := 0 \<rparr>"
    using assms(2) by (auto simp: ma_release_heavy_attack_def split: sum.splits)
  have "ma_inv m1" using assms(1) s by (rule ma_inv_start_attack)
  then show ?thesis by (simp add: m' ma_inv_def)
qed

lemma ma_update_unfold:
  "ma_update m =
     (if ma_is_attacking m \<and> ma_total_frames m = 0 then Inl ZeroDivisionError
      else Inr (ma_timers_tick (ma_attack_tick m)))"
  unfolding ma_update_def ma_attack_tick_def ma_timers_tick_def Let_def by (rule refl)

lemma ma_timers_tick_sel:
  "ma_is_attacking (ma_timers_tick m) = ma_is_attacking m"
  "ma_attack_phase (ma_timers_tick m) = ma_attack_phase m"
  "ma_hit_enemies (ma_timers_tick m) = ma_hit_enemies m"
  "ma_max_combo (ma_timers_tick m) = ma_max_combo m"
  "ma_combo_count (ma_timers_tick m) = (if ma_combo_timer m = 1 then 0 else ma_combo_count m)"
  by (simp_all add: ma_timers_tick_def Let_def)

lemma ma_attack_tick_sel:
  "ma_max_combo (ma_attack_tick m) = ma_max_combo m"
  "ma_combo_count (ma_attack_tick m) = ma_combo_count m"
  "ma_combo_timer (ma_attack_tick m) = ma_combo_timer m"
  "ma_is_attacking (ma_attack_tick m) \<or> ma_attack_phase (ma_attack_tick m) = MA_NONE
     \<or> \<not> ma_is_attacking m \<and> ma_attack_phase (ma_attack_tick m) = ma_attack_phase m"
  "ma_is_attacking (ma_attack_tick m) \<Longrightarrow> ma_hit_enemies (ma_attack_tick m) = ma_hit_enemies m"
  by (simp_all add: ma_attack_tick_def Let_def ma_end_attack_sel split: if_splits)

lemma ma_update_result:
  assumes "ma_update m = Inr m'"
  shows "m' = ma_timers_tick (ma_attack_tick m)"
  using assms by (simp add: ma_update_unfold split: if_splits)

lemma ma_inv_update:
  assumes "ma_inv m" "ma_update m = Inr m'"
  shows "ma_inv m'"
  using assms(1) ma_attack_tick_sel(4)[of m]
  unfolding ma_update_result[OF assms(2)] ma_inv_def
  by (auto simp add: ma_timers_tick_sel ma_attack_tick_sel(1,2,3))


lemma ma_update_combo_expiry:
  assumes "ma_update m = Inr m'" "ma_combo_timer m = 1"
  shows "ma_combo_count m' = 0"
  using assms(2) unfolding ma_update_result[OF assms(1)]
  by (simp add: ma_timers_tick_sel ma_attack_tick_sel)


lemma ma_check_hit_cases:
  assumes "ma_check_hit_enemy fl roll m e ss hf = Inr (hit, m', e', ss', hf')"
  shows "(\<not> hit \<and> m' = m \<and> e' = e \<and> ss' = ss \<and> hf' = hf)
       \<or> (hit \<and> en_id e \<notin> ma_hit_enemies m
           \<and> m' = m\<lparr> ma_hit_enemies := insert (en_id e) (ma_hit_enemies m),
                      ma_hit_count_this_attack := ma_hit_count_this_attack m + 1 \<rparr>)"
  using assms
  by (simp add: ma_check_hit_enemy_def Let_def split: if_splits option.splits sum.splits prod.splits)

lemma ma_inv_check_hit:
  assumes "ma_inv m" "ma_check_hit_enemy fl roll m e ss hf = Inr (hit, m', e', ss', hf')"
  shows "ma_inv m'"
  using assms(1) ma_check_hit_cases[OF assms(2)] by (auto simp: ma_inv_def)

lemma ma_reachable_inv: "ma_reachable m \<Longrightarrow> ma_inv m"
proof (induction rule: ma_reachable.induct)
  case (ma_reach_init r st)
  show ?case by (simp add: ma_inv_def ma_init_def)
next
  case (ma_reach_try_attack m heavy ok m')
  then show ?case using ma_inv_try_attack by blast
next
  case (ma_reach_release m m')
  then show ?case using ma_inv_release by blast
next
  case (ma_reach_start_attack m heavy m')
  then show ?case using ma_inv_start_attack by blast
next
  case (ma_reach_end_attack m)
  then show ?case by (simp add: ma_inv_def ma_end_attack_sel)
next
  case (ma_reach_update m m')
  then show ?case using ma_inv_update by blast
next
  case (ma_reach_check_hit m roll e ss hf hit m' e' ss' hf')
  then show ?case using ma_inv_check_hit by blast
next
  case (ma_reach_environment m r st mp)
  then show ?case by (simp add: ma_inv_def)
qed

subsection \<open>The boss\<close>

lemma b_take_damage_protected:
  "b_is_invulnerable b \<or> \<not> b_can_take_damage b \<Longrightarrow> b_take_damage d kx ky b = Inr b"
  by (simp add: b_take_damage_def)

lemma b_get_current_phase_ok:
  assumes "b_phases b = [] \<or> b_max_health b \<noteq> 0"
  shows "\<exists>r. b_get_current_phase b = Inr r \<and> (\<forall>i. r = Some i \<longrightarrow> i < length (b_phases b))"
proof (cases "b_phases b = []")
  case True
  then show ?thesis by (simp add: b_get_current_phase_def)
next
  case False
  have loop: "get_current_phase_loop h ps = Some i \<Longrightarrow> i < length ps" for h ps i
    by (induction ps arbitrary: i) (auto split: if_splits)
  from False assms have "b_max_health b \<noteq> 0" by simp
  with False loop show ?thesis
    by (auto simp add: b_get_current_phase_def split: option.splits)
qed

lemma b_get_current_phase_cong:
  assumes "b_phases b' = b_phases b" "b_max_health b' = b_max_health b"
    "b_current_health b' = b_current_health b"
  shows "b_get_current_phase b' = b_get_current_phase b"
  using assms by (simp add: b_get_current_phase_def cong: option.case_cong)

lemma b_check_phase_transition_sel:
  assumes "b_check_phase_transition b = Inr (tr, b')"
  shows "b' = b \<or> (\<exists>i. b' = b\<lparr> b_current_phase_index := i \<rparr>)"
  using assms
  by (auto simp add: b_check_phase_transition_def split: sum.splits option.splits if_splits)

lemma b_trigger_phase_transition_sel:
  assumes "b_trigger_phase_transition b = Inr b'"
  shows "b_current_health b' = b_current_health b \<and> b_max_health b' = b_max_health b"
  using assms
  by (auto simp add: b_trigger_phase_transition_def Let_def split: sum.splits option.splits)

lemma b_trigger_defeat_defeated:
  "b_defeated (b_trigger_defeat b)" "b_current_health (b_trigger_defeat b) = b_current_health b"
  by (simp_all add: b_defeated_def b_trigger_defeat_def)

lemma b_take_damage_lethal:
  assumes "\<not> b_is_invulnerable b" "b_can_take_damage b" "b_current_health b - d \<le> 0"
    and "b_take_damage d kx ky b = Inr b'"
  shows "b_defeated b' \<and> b_current_health b' = 0"
proof -
  let ?b1 = "b\<lparr> b_current_health := b_current_health b - d, b_damage_flash_timer := 10,
                b_velocity_x := b_velocity_x b + kx, b_velocity_y := b_velocity_y b + ky \<rparr>"
  from assms obtain tr b2 where c: "b_check_phase_transition ?b1 = Inr (tr, b2)"
    by (auto simp add: b_take_damage_def Let_def split: sum.splits)
  then have h2: "b_current_health b2 = b_current_health b - d"
    using b_check_phase_transition_sel[OF c] by auto
  from assms c obtain b3 where t: "(if tr then b_trigger_phase_transition b2 else Inr b2) = Inr b3"
    and r: "b' = (if b_current_health b3 \<le> 0 then b_trigger_defeat (b3\<lparr> b_current_health := 0 \<rparr>) else b3)"
    by (auto simp add: b_take_damage_def Let_def split: sum.splits if_splits)
  have h3: "b_current_health b3 = b_current_health b - d"
    using t h2 b_trigger_phase_transition_sel[of b2 b3] by (auto split: if_splits)
  then show ?thesis using r assms(3) by (simp add: b_trigger_defeat_defeated)
qed

lemma b_same_standing_refl: "b_same_standing b b"
  by (simp add: b_same_standing_def)

lemma b_same_standing_trans:
  "b_same_standing a b \<Longrightarrow> b_same_standing b c \<Longrightarrow> b_same_standing a c"
  by (simp add: b_same_standing_def)

lemma b_usm_defeated:
  assumes "b_state b = DEFEATED" "b_phases b = [] \<or> b_max_health b \<noteq> 0"
  shows "\<exists>b'. b_update_state_machine fl player rnd b = Inr b' \<and> b_same_standing b b'
            \<and> b_state_frame b' = b_state_frame b + 1 \<and> b_target_player b' = player"
proof -
  let ?b1 = "b\<lparr> b_state_frame := b_state_frame b + 1, b_target_player := player \<rparr>"
  have "b_get_current_phase ?b1 = b_get_current_phase b"
    by (rule b_get_current_phase_cong) simp_all
  with b_get_current_phase_ok[OF assms(2)] obtain r where
    r: "b_get_current_phase ?b1 = Inr r" by auto
  show ?thesis
    using assms(1) r
    by (cases r)
       (simp_all add: b_update_state_machine_def Let_def b_update_defeated_def
          b_same_standing_def)
qed

lemma b_handle_platform_collision_loop_sel:
  "b_same_standing b (b_handle_platform_collision_loop ps b)
   \<and> b_target_player (b_handle_platform_collision_loop ps b) = b_target_player b
   \<and> b_state_frame (b_handle_platform_collision_loop ps b) = b_state_frame b"
proof (induction ps arbitrary: b)
  case Nil
  show ?case by (simp add: b_same_standing_def)
next
  case (Cons p ps)
  show ?case
    using Cons.IH[of b]
      Cons.IH[of "b\<lparr> b_rect := (b_rect b)\<lparr> r_y := r_y p - r_h (b_rect b) \<rparr>,
                b_velocity_y := 0, b_on_ground := True \<rparr>"]
    by (simp add: b_same_standing_def)
qed

lemma b_update_defeated_boss:
  assumes "b_state b = DEFEATED" "b_phases b = [] \<or> b_max_health b \<noteq> 0"
  shows "\<exists>b'. b_update fl player platforms rnd b = Inr b' \<and> b_same_standing b b'
           \<and> b_state_frame b' = (if b_intro_played b then b_state_frame b + 1 else b_state_frame b)"
proof (cases "b_intro_played b")
  case False
  then show ?thesis by (simp add: b_update_def b_same_standing_refl)
next
  case True
  from b_usm_defeated[OF assms, of fl player rnd] obtain b1 where
    u: "b_update_state_machine fl player rnd b = Inr b1" and s: "b_same_standing b b1"
    and f: "b_state_frame b1 = b_state_frame b + 1" by blast
  have d: "b_state b1 = DEFEATED" using s assms(1) by (simp add: b_same_standing_def)
  let ?b2 = "b1\<lparr> b_velocity_y := b_velocity_y b1 + 5 / 10 \<rparr>"
  let ?b3 = "?b2\<lparr> b_rect := (b_rect ?b2)
                \<lparr> r_x := r_x (b_rect ?b2) + (py_int (b_velocity_x ?b2) + b_shake_offset_x ?b2),
                  r_y := r_y (b_rect ?b2) + (py_int (b_velocity_y ?b2) + b_shake_offset_y ?b2) \<rparr> \<rparr>"
  let ?b3' = "?b3\<lparr> b_on_ground := False \<rparr>"
  let ?b4 = "b_handle_platform_collision_loop platforms ?b3'"
  have s3: "b_same_standing b1 ?b3'" "b_state_frame ?b3' = b_state_frame b1"
    by (simp_all add: b_same_standing_def)
  note l = b_handle_platform_collision_loop_sel[of ?b3' platforms]
  have s4: "b_same_standing b1 ?b4" using s3(1) l b_same_standing_trans by blast
  have f4: "b_state_frame ?b4 = b_state_frame b1" using l s3(2) by simp
  let ?b5 = "?b4\<lparr> b_velocity_x := b_velocity_x ?b4 * (85 / 100) \<rparr>"
  have s5: "b_same_standing b1 ?b5" "b_state_frame ?b5 = b_state_frame b1"
    using s4 f4 by (simp_all add: b_same_standing_def)
  have d5: "b_state ?b5 = DEFEATED" using s5(1) d by (simp add: b_same_standing_def)
  have "b_update fl player platforms rnd b = Inr ?b5"
    using True u d5
    by (simp add: b_update_def Let_def b_handle_platform_collision_def split: option.split)
  moreover have "b_same_standing b ?b5" using s s5(1) b_same_standing_trans by blast
  ultimately show ?thesis using True f s5(2) by simp
qed

lemma b_run_defeated:
  assumes "b_state b = DEFEATED" "b_phases b = [] \<or> b_max_health b \<noteq> 0"
  shows "\<exists>b'. b_run inputs b = Inr b' \<and> b_same_standing b b'"
  using assms
proof (induction inputs arbitrary: b)
  case Nil
  then show ?case by (simp add: b_same_standing_refl)
next
  case (Cons i inputs)
  obtain fl player platforms rnd where i: "i = (fl, player, platforms, rnd)" by (cases i) auto
  from b_update_defeated_boss[OF Cons.prems, of fl player platforms rnd] obtain b1 where
    u: "b_update fl player platforms rnd b = Inr b1" and s: "b_same_standing b b1" by blast
  have "b_state b1 = DEFEATED" "b_phases b1 = [] \<or> b_max_health b1 \<noteq> 0"
    using s Cons.prems by (auto simp add: b_same_standing_def)
  from Cons.IH[OF this] obtain b' where "b_run inputs b1 = Inr b'" "b_same_standing b1 b'"
    by blast
  then show ?case using u s i b_same_standing_trans by auto
qed

subsection \<open>Concrete runs and further facts\<close>

lemma demo_attack_trace: "light_trace 0 demo_attack"
  unfolding demo_attack_def by (rule light_trace_start) (simp_all add: hk_init_def)

lemma demo_attack_after:
  "t \<le> 21 \<Longrightarrow> light_trace t (hk_ticks t demo_attack)"
  using light_trace_ticks[OF demo_attack_trace, of t] by simp

lemma ma_start_attack_frames:
  assumes "st_attack_speed (ma_player_stats m) \<noteq> 0"
  shows "\<exists>m'. ma_start_attack fl heavy m = Inr m'
       \<and> ma_windup_frames m' = (if heavy then 5 else 3)
       \<and> ma_active_frames m' = (if heavy then 8 else 6)
       \<and> ma_total_frames m' = (if heavy then 21 else 14)
       \<and> ma_player_stats m' = ma_player_stats m
       \<and> ma_cancel_window_start m' = ma_cancel_window_start m
       \<and> ma_attack_cooldown m' =
            real_of_int (max 8 (py_int (fl (15 / st_attack_speed (ma_player_stats m)))))
              * (if heavy then 15 / 10 else 1)"
  using assms
  by (cases "ma_is_attacking m"; cases heavy)
     (simp_all add: ma_start_attack_def Let_def ma_end_attack_sel ma_end_attack_def)

lemma ma_update_running:
  assumes "ma_is_attacking m" "0 \<le> ma_attack_frame m" "ma_attack_frame m + 1 < ma_total_frames m"
  shows "\<exists>m'. ma_update m = Inr m' \<and> ma_is_attacking m'
       \<and> ma_attack_frame m' = ma_attack_frame m + 1
       \<and> ma_attack_phase m' =
            (if ma_attack_frame m + 1 \<le> ma_windup_frames m then MA_WINDUP
             else if ma_attack_frame m + 1 \<le> ma_windup_frames m + ma_active_frames m then MA_ACTIVE
             else MA_RECOVERY)
       \<and> ma_can_cancel m' =
            (if ma_attack_frame m + 1 \<le> ma_windup_frames m then False
             else if ma_attack_frame m + 1 \<le> ma_windup_frames m + ma_active_frames m
             then ma_cancel_window_start m \<le> ma_attack_frame m + 1
             else True)
       \<and> ma_attack_cooldown m' =
            (if 0 < ma_attack_cooldown m then ma_attack_cooldown m - 1 else ma_attack_cooldown m)
       \<and> ma_cancel_window_start m' = ma_cancel_window_start m
       \<and> ma_windup_frames m' = ma_windup_frames m \<and> ma_active_frames m' = ma_active_frames m
       \<and> ma_total_frames m' = ma_total_frames m"
proof -
  have nz: "ma_total_frames m \<noteq> 0" using assms by linarith
  have t: "ma_attack_frame (ma_timers_tick x) = ma_attack_frame x"
    "ma_windup_frames (ma_timers_tick x) = ma_windup_frames x"
    "ma_active_frames (ma_timers_tick x) = ma_active_frames x"
    "ma_total_frames (ma_timers_tick x) = ma_total_frames x"
    "ma_can_cancel (ma_timers_tick x) = ma_can_cancel x"
    "ma_cancel_window_start (ma_timers_tick x) = ma_cancel_window_start x"
    "ma_attack_cooldown (ma_timers_tick x) =
       (if 0 < ma_attack_cooldown x then ma_attack_cooldown x - 1 else ma_attack_cooldown x)" for x
    by (simp_all add: ma_timers_tick_def Let_def)
  have a: "ma_is_attacking (ma_attack_tick m)"
    "ma_attack_frame (ma_attack_tick m) = ma_attack_frame m + 1"
    "ma_attack_phase (ma_attack_tick m) =
            (if ma_attack_frame m + 1 \<le> ma_windup_frames m then MA_WINDUP
             else if ma_attack_frame m + 1 \<le> ma_windup_frames m + ma_active_frames m then MA_ACTIVE
             else MA_RECOVERY)"
    "ma_can_cancel (ma_attack_tick m) =
            (if ma_attack_frame m + 1 \<le> ma_windup_frames m then False
             else if ma_attack_frame m + 1 \<le> ma_windup_frames m + ma_active_frames m
             then ma_cancel_window_start m \<le> ma_attack_frame m + 1
             else True)"
    "ma_attack_cooldown (ma_attack_tick m) = ma_attack_cooldown m"
    "ma_cancel_window_start (ma_attack_tick m) = ma_cancel_window_start m"
    "ma_windup_frames (ma_attack_tick m) = ma_windup_frames m"
    "ma_active_frames (ma_attack_tick m) = ma_active_frames m"
    "ma_total_frames (ma_attack_tick m) = ma_total_frames m"
    using assms by (simp_all add: ma_attack_tick_def Let_def)
  show ?thesis
    using nz by (simp add: ma_update_unfold t a ma_timers_tick_sel)
qed

lemma demo_melee_idle:
  "\<not> (ma_is_attacking demo_melee \<and> \<not> ma_can_cancel demo_melee)"
  "\<not> 0 < ma_attack_cooldown demo_melee"
  "st_attack_speed (ma_player_stats demo_melee) \<noteq> 0"
  "ma_attack_phase demo_melee = MA_NONE" "\<not> ma_is_attacking demo_melee"
  by (simp_all add: demo_melee_def ma_init_def demo_stats_def)

lemma swinging_melee_facts:
  "light_swing 4 = Inr swinging_melee" "ma_is_attacking swinging_melee"
  "ma_attack_phase swinging_melee = MA_ACTIVE" "ma_can_cancel swinging_melee"
  "ma_attack_cooldown swinging_melee = 11"
proof -
  have sp: "st_attack_speed (ma_player_stats demo_melee) = 1"
    "ma_cancel_window_start demo_melee = 4"
    by (simp_all add: demo_melee_def ma_init_def demo_stats_def)
  from ma_start_attack_ok[OF demo_melee_idle(3), of id False]
    ma_start_attack_frames[OF demo_melee_idle(3), of id False]
  obtain m0 where m0: "ma_start_attack id False demo_melee = Inr m0" "ma_is_attacking m0"
    "ma_attack_frame m0 = 0" "ma_windup_frames m0 = 3" "ma_active_frames m0 = 6"
    "ma_total_frames m0 = 14" "ma_cancel_window_start m0 = 4" "ma_attack_cooldown m0 = 15"
    by (auto simp add: sp py_int_def)
  have t: "ma_try_attack id False demo_melee = Inr (True, m0)"
    using ma_try_attack_accepted[OF demo_melee_idle(1,2), of id False] m0(1) by simp
  from ma_update_running[of m0] m0 obtain m1 where m1: "ma_update m0 = Inr m1"
    "ma_is_attacking m1" "ma_attack_frame m1 = 1" "ma_windup_frames m1 = 3"
    "ma_active_frames m1 = 6" "ma_total_frames m1 = 14" "ma_cancel_window_start m1 = 4"
    "ma_attack_cooldown m1 = 14" by auto
  from ma_update_running[of m1] m1 obtain m2 where m2: "ma_update m1 = Inr m2"
    "ma_is_attacking m2" "ma_attack_frame m2 = 2" "ma_windup_frames m2 = 3"
    "ma_active_frames m2 = 6" "ma_total_frames m2 = 14" "ma_cancel_window_start m2 = 4"
    "ma_attack_cooldown m2 = 13" by auto
  from ma_update_running[of m2] m2 obtain m3 where m3: "ma_update m2 = Inr m3"
    "ma_is_attacking m3" "ma_attack_frame m3 = 3" "ma_windup_frames m3 = 3"
    "ma_active_frames m3 = 6" "ma_total_frames m3 = 14" "ma_cancel_window_start m3 = 4"
    "ma_attack_cooldown m3 = 12" by auto
  from ma_update_running[of m3] m3 obtain m4 where m4: "ma_update m3 = Inr m4"
    "ma_is_attacking m4" "ma_attack_phase m4 = MA_ACTIVE" "ma_can_cancel m4"
    "ma_attack_cooldown m4 = 11" by auto
  have r: "light_swing 4 = Inr m4"
    by (simp add: light_swing_def t eval_nat_numeral m1(1) m2(1) m3(1) m4(1))
  then have "swinging_melee = m4" by (simp add: swinging_melee_def)
  with r m4 show "light_swing 4 = Inr swinging_melee" "ma_is_attacking swinging_melee"
    "ma_attack_phase swinging_melee = MA_ACTIVE" "ma_can_cancel swinging_melee"
    "ma_attack_cooldown swinging_melee = 11" by simp_all
qed




lemma b_check_phase_transition_ok:
  assumes "b_phases b = [] \<or> b_max_health b \<noteq> 0"
  shows "\<exists>tr b'. b_check_phase_transition b = Inr (tr, b')"
proof -
  from b_get_current_phase_ok[OF assms] obtain r where "b_get_current_phase b = Inr r" by blast
  then show ?thesis
    by (cases r) (auto simp add: b_check_phase_transition_def)
qed

lemma b_trigger_phase_transition_ok:
  assumes "b_phases b = [] \<or> b_max_health b \<noteq> 0"
  shows "\<exists>b'. b_trigger_phase_transition b = Inr b'"
proof -
  let ?b1 = "b\<lparr> b_state := PHASE_TRANSITION, b_state_timer := b_phase_transition_duration b,
                b_is_invulnerable := True \<rparr>"
  have "b_get_current_phase ?b1 = b_get_current_phase b"
    by (rule b_get_current_phase_cong) simp_all
  with b_get_current_phase_ok[OF assms] obtain r where "b_get_current_phase ?b1 = Inr r" by auto
  then show ?thesis
    by (cases r) (simp_all add: b_trigger_phase_transition_def Let_def)
qed

lemma b_take_damage_lethal_ok:
  assumes "\<not> b_is_invulnerable b" "b_can_take_damage b" "b_current_health b - d \<le> 0"
    and "b_phases b = [] \<or> b_max_health b \<noteq> 0"
  shows "\<exists>b'. b_take_damage d kx ky b = Inr b' \<and> b_defeated b' \<and> b_current_health b' = 0"
proof -
  let ?b1 = "b\<lparr> b_current_health := b_current_health b - d, b_damage_flash_timer := 10,
                b_velocity_x := b_velocity_x b + kx, b_velocity_y := b_velocity_y b + ky \<rparr>"
  have ok1: "b_phases ?b1 = [] \<or> b_max_health ?b1 \<noteq> 0" using assms(4) by simp
  from b_check_phase_transition_ok[OF ok1] obtain tr b2 where
    c: "b_check_phase_transition ?b1 = Inr (tr, b2)" by blast
  have ok2: "b_phases b2 = [] \<or> b_max_health b2 \<noteq> 0"
    using b_check_phase_transition_sel[OF c] ok1 by auto
  from b_trigger_phase_transition_ok[OF ok2] obtain b3 where
    t: "(if tr then b_trigger_phase_transition b2 else Inr b2) = Inr b3" by (cases tr) auto
  have "\<exists>b'. b_take_damage d kx ky b = Inr b'"
    using assms(1,2) c t by (simp add: b_take_damage_def Let_def)
  then obtain b' where r: "b_take_damage d kx ky b = Inr b'" by blast
  from b_take_damage_lethal[OF assms(1,2,3) r] r show ?thesis by blast
qed

lemma three_phase_boss_eq:
  "three_phase_boss =
     (b_init 0 0 100)\<lparr> b_phases := [new_phase 1 1 [] 120 (2 / 10),
                                      new_phase 2 (66 / 100) [] 90 (25 / 100),
                                      new_phase 3 (33 / 100) [] 70 (35 / 100)] \<rparr>"
  by (simp add: three_phase_boss_def b_add_phase_def b_init_def new_phase_def)

lemma slain_boss_eq:
  "slain_boss = (b_play_intro three_phase_boss)
     \<lparr> b_current_health := 0, b_damage_flash_timer := 10, b_state := DEFEATED,
       b_is_defeated := True, b_can_take_damage := False \<rparr>"
  by (simp add: slain_boss_def three_phase_boss_eq b_play_intro_def b_take_damage_def b_init_def
      new_phase_def b_check_phase_transition_def b_get_current_phase_def b_trigger_defeat_def)

lemma slain_boss_facts:
  "b_defeated slain_boss" "b_state slain_boss = DEFEATED" "b_intro_played slain_boss"
  "b_state_frame slain_boss = 0" "b_phases slain_boss = [] \<or> b_max_health slain_boss \<noteq> 0"
  by (simp_all add: slain_boss_eq b_defeated_def b_play_intro_def three_phase_boss_eq b_init_def)

lemma demo_melee_started:
  "\<exists>m'. ma_start_attack fl False demo_melee = Inr m' \<and> ma_combo_count m' = 1"
proof -
  have "st_attack_speed (ma_player_stats demo_melee) \<noteq> 0"
    by (simp add: demo_melee_def ma_init_def demo_stats_def)
  from ma_start_attack_ok[OF this, of fl False] show ?thesis
    by (auto simp add: demo_melee_def ma_init_def)
qed


lemma hk_run_raised: "hk_run n s = Inl e \<Longrightarrow> hk_run (n + k) s = Inl e"
proof (induction n arbitrary: s)
  case 0
  then show ?case by simp
next
  case (Suc n)
  then show ?case by (cases "hk_update s") (auto split: option.splits)
qed

lemma hk_run_returns:
  "(\<And>k. k < n \<Longrightarrow> fst (hk_update (hk_ticks k s)) = None) \<Longrightarrow> hk_run n s = Inr (hk_ticks n s)"
proof (induction n arbitrary: s)
  case 0
  then show ?case by simp
next
  case (Suc n)
  have f: "fst (hk_update s) = None" using Suc.prems[of 0] by simp
  have "hk_run n (snd (hk_update s)) = Inr (hk_ticks n (snd (hk_update s)))"
  proof (rule Suc.IH)
    fix k assume "k < n"
    then show "fst (hk_update (hk_ticks k (snd (hk_update s)))) = None"
      using Suc.prems[of "Suc k"] by simp
  qed
  with f show ?case by (cases "hk_update s") simp
qed

lemma hk_run_raises_at:
  "(\<And>k. k < n \<Longrightarrow> fst (hk_update (hk_ticks k s)) = None)
     \<Longrightarrow> fst (hk_update (hk_ticks n s)) = Some e \<Longrightarrow> hk_run (Suc n) s = Inl e"
proof (induction n arbitrary: s)
  case 0
  then show ?case by (cases "hk_update s") simp
next
  case (Suc n)
  have f: "fst (hk_update s) = None" using Suc.prems(1)[of 0] by simp
  have "hk_run (Suc n) (snd (hk_update s)) = Inl e"
  proof (rule Suc.IH)
    fix k assume "k < n"
    then show "fst (hk_update (hk_ticks k (snd (hk_update s)))) = None"
      using Suc.prems(1)[of "Suc k"] by simp
  next
    show "fst (hk_update (hk_ticks n (snd (hk_update s)))) = Some e"
      using Suc.prems(2) by simp
  qed
  with f show ?case by (cases "hk_update s") simp
qed

lemma light_trace_raises:
  assumes "light_trace t s"
  shows "fst (hk_update s) = (if t = 3 then Some TypeError else None)"
  using assms
  by (auto simp add: hk_update_raises light_trace_def hk_get_windup_duration_def)

lemma hit_feel_eq:
  "hit_feel = cf_init\<lparr> cf_hit_pause_duration := 2, cf_hit_pause_timer := 2, cf_shake_intensity := 4,
                        cf_shake_duration := 6, cf_shake_timer := 6, cf_combo_count := 1,
                        cf_combo_timer := 30 \<rparr>"
  by (simp add: hit_feel_def cf_register_hit_def cf_trigger_hit_pause_def
      cf_trigger_screen_shake_def cf_init_def Let_def)

lemma pl_update_paused:
  assumes "pl_combat_feel (hk_player s) = Some c" "0 < cf_hit_pause_timer c"
  shows "pl_update gameplay s
           = Inr (False, s\<lparr> hk_player := (hk_player s)
                    \<lparr> pl_combat_feel := Some (c\<lparr> cf_hit_pause_timer := cf_hit_pause_timer c - 1 \<rparr>) \<rparr> \<rparr>)"
  using assms by (simp add: pl_update_def cf_update_def Let_def)

lemma game_hit_freeze_inert:
  "game_update fr (g\<lparr> g_hit_freeze := h \<rparr>)
     = map_sum id (\<lambda>g'. g'\<lparr> g_hit_freeze := (if g_paused g then h else hf_update h) \<rparr>)
         (game_update fr g)"
  by (auto simp add: game_update_def game_after_player_def Let_def
      split: sum.splits option.splits prod.splits)

lemma frozen_tick:
  "game_update quiet_frame frozen_game
     = Inr (frozen_game
         \<lparr> g_combat := hk_init (demo_player\<lparr> pl_combat_feel := Some (hit_feel\<lparr> cf_hit_pause_timer := 1 \<rparr>) \<rparr>),
           g_projectiles := [demo_bolt\<lparr> pr_x := 506, pr_rect := \<lparr> r_x = 500, r_y = 94, r_w = 12, r_h = 12 \<rparr>,
                                       pr_lifetime := 179 \<rparr>],
           g_hit_freeze := \<lparr> hf_freeze_frames = 3, hf_max_freeze = 4 \<rparr> \<rparr>)"
  by (simp add: game_update_def game_after_player_def frozen_game_def demo_game_def quiet_frame_def
      pl_update_def hit_feel_eq cf_update_def cf_init_def hk_init_def demo_player_def Let_def
      game_update_projectiles_def pr_update_def demo_bolt_def py_int_def game_hit_pass_def
      ss_update_def demo_shake_def hf_update_def hf_add_freeze_def demo_freeze_def)

section \<open>The claims\<close>

text \<open>
  C1. For every attack instance, the hitbox query returns a hitbox if and only if the phase is
  Active: for every state of the directional combat system, and for every reachable state of
  the aimed melee attack.
\<close>

theorem hitbox_iff_active:
  "((hk_get_hitbox s \<noteq> None) \<longleftrightarrow> hk_attack_phase s = ACTIVE)
   \<and> (ma_reachable m \<longrightarrow>
        ((ma_get_attack_hitbox fl m \<noteq> None) \<longleftrightarrow> ma_attack_phase m = MA_ACTIVE))"
proof (intro conjI impI)
  show "(hk_get_hitbox s \<noteq> None) \<longleftrightarrow> hk_attack_phase s = ACTIVE"
    by (rule hk_get_hitbox_active)
next
  assume "ma_reachable m"
  then have "ma_inv m" by (rule ma_reachable_inv)
  then have "ma_is_attacking m \<or> ma_attack_phase m = MA_NONE" by (simp add: ma_inv_def)
  then show "(ma_get_attack_hitbox fl m \<noteq> None) \<longleftrightarrow> ma_attack_phase m = MA_ACTIVE"
    by (auto simp add: ma_get_attack_hitbox_def Let_def)
qed

theorem hitbox_iff_active_witness:
  "hk_get_hitbox (hk_ticks 3 demo_attack) = None
   \<and> hk_get_hitbox (hk_ticks 4 demo_attack) \<noteq> None
   \<and> hk_get_hitbox (hk_ticks 12 demo_attack) = None
   \<and> ma_reachable demo_melee \<and> ma_get_attack_hitbox id demo_melee = None
   \<and> (\<exists>m. ma_reachable m \<and> ma_attack_phase m = MA_ACTIVE \<and> ma_get_attack_hitbox id m \<noteq> None)"
proof -
  have p: "hk_attack_phase (hk_ticks 3 demo_attack) = WINDUP"
    "hk_attack_phase (hk_ticks 4 demo_attack) = ACTIVE"
    "hk_attack_phase (hk_ticks 12 demo_attack) = RECOVERY"
    using demo_attack_after[of 3] demo_attack_after[of 4] demo_attack_after[of 12]
    by (simp_all add: light_trace_def)
  have r0: "ma_reachable demo_melee" unfolding demo_melee_def by (rule ma_reach_init)
  have p0: "ma_attack_phase demo_melee = MA_NONE" by (rule demo_melee_idle)
  from swinging_melee_facts(1) obtain ok m0 where
    t: "ma_try_attack id False demo_melee = Inr (ok, m0)" and r: "ma_run 4 m0 = Inr swinging_melee"
    by (auto simp add: light_swing_def split: sum.splits prod.splits)
  from r0 t have rm0: "ma_reachable m0" by (rule ma_reach_try_attack)
  have run: "ma_reachable m \<Longrightarrow> ma_run n m = Inr m' \<Longrightarrow> ma_reachable m'" for n m m'
  proof (induction n arbitrary: m)
    case 0
    then show ?case by simp
  next
    case (Suc n)
    then obtain m1 where u: "ma_update m = Inr m1" and "ma_run n m1 = Inr m'"
      by (auto split: sum.splits)
    with Suc show ?case using ma_reach_update by blast
  qed
  have rm4: "ma_reachable swinging_melee" using run[OF rm0 r] .
  show ?thesis
    using hitbox_iff_active[of "hk_ticks 3 demo_attack" demo_melee id]
      hitbox_iff_active[of "hk_ticks 4 demo_attack" swinging_melee id]
      hitbox_iff_active[of "hk_ticks 12 demo_attack" demo_melee id]
      p r0 p0 rm4 swinging_melee_facts(3)
    by auto
qed






text \<open>
  C4, as the code has it. A blow that takes the health of a boss to 0 or below leaves it
  defeated with health 0 (no exception arises as long as \<open>max_health\<close> is not zero or there
  are no phases). A defeated boss ignores every further \<open>take_damage\<close>: nothing changes.
  Ticking a defeated boss any number of times raises nothing and leaves it defeated: the
  state of the state machine, the flags, the health, the phase index and the invulnerability
  stay as they are (frame counter, timers and movement go on, see the counterexample).
\<close>

theorem defeat_is_terminal:
  "(\<not> b_is_invulnerable b \<and> b_can_take_damage b \<and> b_current_health b - damage \<le> 0
      \<and> (b_phases b = [] \<or> b_max_health b \<noteq> 0) \<longrightarrow>
        (\<exists>b'. b_take_damage damage kx ky b = Inr b' \<and> b_defeated b' \<and> b_current_health b' = 0))
   \<and> (b_defeated b \<longrightarrow> b_take_damage damage kx ky b = Inr b)
   \<and> (b_defeated b \<and> (b_phases b = [] \<or> b_max_health b \<noteq> 0) \<longrightarrow>
        (\<exists>b''. b_run inputs b = Inr b'' \<and> b_defeated b'' \<and> b_same_standing b b''))"
proof (intro conjI impI)
  assume "\<not> b_is_invulnerable b \<and> b_can_take_damage b \<and> b_current_health b - damage \<le> 0
      \<and> (b_phases b = [] \<or> b_max_health b \<noteq> 0)"
  then show "\<exists>b'. b_take_damage damage kx ky b = Inr b' \<and> b_defeated b' \<and> b_current_health b' = 0"
    using b_take_damage_lethal_ok by blast
next
  assume "b_defeated b"
  then show "b_take_damage damage kx ky b = Inr b"
    by (simp add: b_defeated_def b_take_damage_protected)
next
  assume h: "b_defeated b \<and> (b_phases b = [] \<or> b_max_health b \<noteq> 0)"
  then have "b_state b = DEFEATED" by (simp add: b_defeated_def)
  from b_run_defeated[OF this, of inputs] h obtain b'' where
    r: "b_run inputs b = Inr b''" "b_same_standing b b''" by blast
  then have "b_defeated b''" using h by (simp add: b_defeated_def b_same_standing_def)
  with r show "\<exists>b''. b_run inputs b = Inr b'' \<and> b_defeated b'' \<and> b_same_standing b b''" by blast
qed

theorem defeat_is_terminal_witness:
  "(\<exists>b'. b_take_damage 100 0 0 (b_play_intro three_phase_boss) = Inr b'
          \<and> b_defeated b' \<and> b_current_health b' = 0)
   \<and> b_defeated slain_boss
   \<and> b_take_damage 50 3 (- 1) slain_boss = Inr slain_boss
   \<and> (\<exists>b''. b_run [(id, None, [], no_rand), (id, None, [], no_rand)] slain_boss = Inr b''
           \<and> b_defeated b'' \<and> b_same_standing slain_boss b'')"
proof -
  have h: "\<not> b_is_invulnerable (b_play_intro three_phase_boss)"
    "b_can_take_damage (b_play_intro three_phase_boss)"
    "b_current_health (b_play_intro three_phase_boss) - 100 \<le> 0"
    "b_phases (b_play_intro three_phase_boss) = [] \<or> b_max_health (b_play_intro three_phase_boss) \<noteq> 0"
    by (simp_all add: b_play_intro_def three_phase_boss_eq b_init_def)
  note 1 = defeat_is_terminal[of "b_play_intro three_phase_boss" 100 0 0]
  note 2 = defeat_is_terminal[of slain_boss 50 3 "- 1"
      "[(id, None, [], no_rand), (id, None, [], no_rand)]"]
  show ?thesis using 1 2 h slain_boss_facts(1,5) by blast
qed

text \<open>
  The claim C4 as stated fails for the tick: one tick of the defeated boss moves its frame
  counter from 0 to 1.
\<close>

theorem defeated_tick_counterexample:
  "b_defeated slain_boss \<and> b_state_frame slain_boss = 0
   \<and> map_sum id b_state_frame (b_update id None [] no_rand slain_boss) = Inr 1"
proof -
  from b_update_defeated_boss[OF slain_boss_facts(2,5), of id None "[]" no_rand]
  obtain b' where "b_update id None [] no_rand slain_boss = Inr b'" "b_state_frame b' = 1"
    using slain_boss_facts(3,4) by auto
  then show ?thesis using slain_boss_facts(1,4) by simp
qed

text \<open>
  C5. The boss has phases at the thresholds 1.0, 0.66 and 0.33 and full health 100; one hit
  of 35 takes it to 65 percent. The claim expects the phase index to become 1 and the boss to
  turn invulnerable. In the code \<open>get_current_phase\<close> runs through the phases from the highest
  threshold down and returns the first one whose threshold is at least the health fraction,
  which is the phase with threshold 1.0 at any health: the hit changes the health and the
  damage flash timer and nothing else.
\<close>

theorem phase_transition_not_fired:
  "map bp_health_threshold (b_phases three_phase_boss) = [1, 66 / 100, 33 / 100]
   \<and> b_current_health three_phase_boss = 100 \<and> b_current_phase_index three_phase_boss = 0
   \<and> \<not> b_is_invulnerable three_phase_boss \<and> b_state three_phase_boss = IDLE
   \<and> b_take_damage 35 0 0 three_phase_boss
       = Inr (three_phase_boss\<lparr> b_current_health := 65, b_damage_flash_timer := 10 \<rparr>)
   \<and> b_get_current_phase (three_phase_boss\<lparr> b_current_health := 65 \<rparr>) = Inr (Some 0)"
  by (simp add: three_phase_boss_eq b_take_damage_def b_init_def new_phase_def
      b_check_phase_transition_def b_get_current_phase_def)

text \<open>
  C6, as the code has it. Directional system (chains of three): in every reachable state
  \<open>0 \<le> combo_count \<le> 2\<close>; a start sets \<open>combo_count\<close> to \<open>min (combo_count + 1) 2\<close> when the
  combo timer is positive and to 0 otherwise; the tick in which the combo timer reaches 0
  leaves \<open>combo_count\<close> at 0. Aimed attack (chains of five, counted from 1): in every
  reachable state \<open>0 \<le> combo_count \<le> max_combo\<close>; a start sets \<open>combo_count\<close> to
  \<open>combo_count + 1\<close> when the combo timer is positive and \<open>combo_count < max_combo\<close>, and to 1
  otherwise; the tick in which the combo timer reaches 0 leaves \<open>combo_count\<close> at 0.
\<close>

theorem combo_count_bounds:
  "(hk_reachable s \<longrightarrow> 0 \<le> hk_combo_count s \<and> hk_combo_count s \<le> 2)
   \<and> hk_combo_count (hk_start_attack s)
       = (if 0 < hk_combo_timer s then min (hk_combo_count s + 1) 2 else 0)
   \<and> (hk_combo_timer s = 1 \<longrightarrow> hk_combo_count (snd (hk_update s)) = 0)
   \<and> (ma_reachable m \<longrightarrow>
         0 \<le> ma_combo_count m \<and> ma_combo_count m \<le> ma_max_combo m \<and> ma_max_combo m = 5)
   \<and> (ma_start_attack fl heavy m = Inr m' \<longrightarrow>
         ma_combo_count m'
           = (if 0 < ma_combo_timer m \<and> ma_combo_count m < ma_max_combo m
              then ma_combo_count m + 1 else 1))
   \<and> (ma_update m = Inr m'' \<and> ma_combo_timer m = 1 \<longrightarrow> ma_combo_count m'' = 0)"
proof (intro conjI impI)
  assume r: "hk_reachable s"
  show "0 \<le> hk_combo_count s" using hk_reachable_combo_bound[OF r] by simp
  show "hk_combo_count s \<le> 2" using hk_reachable_combo_bound[OF r] by simp
next
  show "hk_combo_count (hk_start_attack s)
          = (if 0 < hk_combo_timer s then min (hk_combo_count s + 1) 2 else 0)"
    by (rule hk_start_attack_sel)
next
  assume "hk_combo_timer s = 1"
  then show "hk_combo_count (snd (hk_update s)) = 0" by (rule hk_update_combo_expiry)
next
  assume r: "ma_reachable m"
  show "0 \<le> ma_combo_count m" using ma_reachable_inv[OF r] by (simp add: ma_inv_def)
  show "ma_combo_count m \<le> ma_max_combo m" using ma_reachable_inv[OF r] by (simp add: ma_inv_def)
  show "ma_max_combo m = 5" using ma_reachable_inv[OF r] by (simp add: ma_inv_def)
next
  assume "ma_start_attack fl heavy m = Inr m'"
  from ma_start_attack_result[OF this]
  show "ma_combo_count m'
          = (if 0 < ma_combo_timer m \<and> ma_combo_count m < ma_max_combo m
             then ma_combo_count m + 1 else 1)" by simp
next
  assume "ma_update m = Inr m'' \<and> ma_combo_timer m = 1"
  then show "ma_combo_count m'' = 0" using ma_update_combo_expiry by blast
qed

theorem combo_count_bounds_witness:
  "hk_reachable demo_attack \<and> 0 \<le> hk_combo_count demo_attack \<and> hk_combo_count demo_attack \<le> 2
   \<and> hk_combo_count (hk_start_attack (hk_ticks 12 demo_attack)) = 1
   \<and> hk_combo_count (snd (hk_update ((hk_ticks 12 demo_attack)\<lparr> hk_combo_timer := 1 \<rparr>))) = 0
   \<and> ma_reachable demo_melee \<and> ma_combo_count demo_melee \<le> ma_max_combo demo_melee
   \<and> (\<exists>m'. ma_start_attack id False demo_melee = Inr m' \<and> ma_combo_count m' = 1)"
proof -
  have r: "hk_reachable demo_attack"
    unfolding demo_attack_def by (rule hk_reach_try_attack) (rule hk_reach_init)
  have rm: "ma_reachable demo_melee" unfolding demo_melee_def by (rule ma_reach_init)
  have t: "hk_combo_timer (hk_ticks 12 demo_attack) = 3 \<and> hk_combo_count (hk_ticks 12 demo_attack) = 0"
    by (simp add: eval_nat_numeral demo_attack_def hk_try_attack_def hk_init_def
        hk_start_attack_def Let_def demo_player_def cf_start_attack_lock_def cf_init_def
        hk_get_windup_duration_def hk_update_def hk_enter_active_phase_def
        hk_spawn_slash_particles_def hk_enter_recovery_phase_def hk_get_active_duration_def)
  have e: "hk_combo_timer ((hk_ticks 12 demo_attack)\<lparr> hk_combo_timer := 1 \<rparr>) = 1" by simp
  note 1 = combo_count_bounds[of demo_attack demo_melee id False]
  note 2 = combo_count_bounds[of "hk_ticks 12 demo_attack" demo_melee id False]
  note 3 = combo_count_bounds[of "(hk_ticks 12 demo_attack)\<lparr> hk_combo_timer := 1 \<rparr>" demo_melee id
      False]
  have 4: "hk_combo_count (hk_start_attack (hk_ticks 12 demo_attack)) = 1"
    using 2 t by simp
  show ?thesis using 1 3 4 r rm e demo_melee_started[of id] by blast
qed

text \<open>
  The claim C6 as stated fails for the aimed attack: started with the combo timer at 0, the
  attack sets \<open>combo_count\<close> to 1, not to 0.
\<close>

theorem combo_restart_counterexample:
  "ma_combo_timer demo_melee = 0
   \<and> map_sum id ma_combo_count (ma_start_attack id False demo_melee) = Inr 1"
proof -
  from demo_melee_started[of id] obtain m' where
    "ma_start_attack id False demo_melee = Inr m'" "ma_combo_count m' = 1" by blast
  then show ?thesis by (simp add: demo_melee_def ma_init_def)
qed

text \<open>
  C7. A light attack with durations 4/8/10 is started at tick 0 on a fresh combat system;
  the claim expects a hitbox from tick 4 to tick 11 and the end of the attack at tick 22. In
  the code the request is accepted and the first three updates return, with no hitbox. The
  fourth update sets the phase to \<open>ACTIVE\<close> and then raises \<open>TypeError\<close>: the slash particles
  are built with the keyword \<open>fade\<close>, which the particle class does not have. So a run of 4
  updates, and of 22, ends in the exception, and with it the update of the player and the
  tick of the game, in which nothing catches it.
\<close>

theorem light_attack_fourth_update_raises:
  "hk_try_attack ''light'' False (hk_init demo_player) = (True, demo_attack)
   \<and> hk_light_timings demo_attack = \<lparr> windup = 4, active = 8, recovery = 10 \<rparr>
   \<and> hk_get_hitbox demo_attack = None
   \<and> hk_run 1 demo_attack = Inr (hk_ticks 1 demo_attack)
   \<and> hk_get_hitbox (hk_ticks 1 demo_attack) = None
   \<and> hk_run 2 demo_attack = Inr (hk_ticks 2 demo_attack)
   \<and> hk_get_hitbox (hk_ticks 2 demo_attack) = None
   \<and> hk_run 3 demo_attack = Inr (hk_ticks 3 demo_attack)
   \<and> hk_get_hitbox (hk_ticks 3 demo_attack) = None
   \<and> fst (hk_update (hk_ticks 3 demo_attack)) = Some TypeError
   \<and> hk_attack_phase (snd (hk_update (hk_ticks 3 demo_attack))) = ACTIVE
   \<and> hk_run 4 demo_attack = Inl TypeError
   \<and> hk_run 22 demo_attack = Inl TypeError
   \<and> pl_update gameplay (hk_ticks 3 demo_attack) = Inl TypeError
   \<and> game_update fr (demo_game\<lparr> g_combat := hk_ticks 3 demo_attack \<rparr>) = Inl TypeError"
proof -
  have st: "hk_try_attack ''light'' False (hk_init demo_player) = (True, demo_attack)"
    using hk_try_attack_idle(1)[of "hk_init demo_player" "''light''" False]
    by (simp add: demo_attack_def hk_init_def prod_eq_iff)
  have tm: "hk_light_timings demo_attack = \<lparr> windup = 4, active = 8, recovery = 10 \<rparr>"
    using demo_attack_trace by (simp add: light_trace_def)
  have ph: "hk_attack_phase (hk_ticks t demo_attack) = WINDUP" if "t < 4" for t
    using demo_attack_after[of t] that by (simp add: light_trace_def)
  have hb: "hk_get_hitbox (hk_ticks t demo_attack) = None" if "t < 4" for t
    using ph[OF that] hk_get_hitbox_active[of "hk_ticks t demo_attack"] by simp
  have ok: "fst (hk_update (hk_ticks t demo_attack)) = None" if "t < 3" for t
    using light_trace_raises[OF demo_attack_after[of t]] that by simp
  have run: "hk_run n demo_attack = Inr (hk_ticks n demo_attack)" if "n \<le> 3" for n
    by (rule hk_run_returns) (use that in \<open>simp add: ok\<close>)
  have ex: "fst (hk_update (hk_ticks 3 demo_attack)) = Some TypeError"
    using light_trace_raises[OF demo_attack_after[of 3]] by simp
  have ac: "hk_attack_phase (snd (hk_update (hk_ticks 3 demo_attack))) = ACTIVE"
    using demo_attack_after[of 4] hk_ticks_Suc_end[of 3 demo_attack]
    by (simp add: light_trace_def eval_nat_numeral)
  have r4: "hk_run 4 demo_attack = Inl TypeError"
    using hk_run_raises_at[of 3 demo_attack TypeError] ok ex by (simp add: eval_nat_numeral)
  have r22: "hk_run 22 demo_attack = Inl TypeError"
    using hk_run_raised[OF r4, of 18] by simp
  have cf: "pl_combat_feel (hk_player (hk_ticks 3 demo_attack)) = Some (cf_start_attack_lock 4 cf_init)"
    by (simp add: eval_nat_numeral demo_attack_def hk_try_attack_def hk_init_def
        hk_start_attack_def Let_def demo_player_def hk_get_windup_duration_def hk_update_def)
  have pl: "pl_update gameplay (hk_ticks 3 demo_attack) = Inl TypeError" for gameplay
  proof -
    let ?s1 = "(hk_ticks 3 demo_attack)\<lparr> hk_player := (hk_player (hk_ticks 3 demo_attack))
                 \<lparr> pl_combat_feel := Some (snd (cf_update (cf_start_attack_lock 4 cf_init))) \<rparr> \<rparr>"
    have "light_trace 3 ?s1" using demo_attack_after[of 3] by (simp add: light_trace_def)
    from light_trace_raises[OF this] have "fst (hk_update ?s1) = Some TypeError" by simp
    then show ?thesis
      by (cases "hk_update ?s1")
         (simp add: pl_update_def cf Let_def cf_update_def cf_start_attack_lock_def cf_init_def)
  qed
  have gm: "game_update fr (demo_game\<lparr> g_combat := hk_ticks 3 demo_attack \<rparr>) = Inl TypeError"
    by (simp add: game_update_def pl demo_game_def)
  show ?thesis
    using st tm hb[of 0] hb[of 1] hb[of 2] hb[of 3] run[of 1] run[of 2] run[of 3] ex ac r4 r22 pl gm
    by simp
qed




text \<open>
  C9, as the code has it. While the hit-pause timer of the combat feel of the player is
  positive, the update of the combat feel only lowers that timer by one and reports the
  pause: shake timer, attack lock, combo timer and combo count keep their values. The update
  of the player then returns at once; the combat feel is all it changed. The rest of the
  tick is not skipped: the game goes on with enemies, projectiles, bosses, the hit checks of
  the player's attack, the attacks on the player, screen shake and hit freeze, just as after
  an update of the player that was not paused; where enemies and attacks leave the
  projectiles alone, each projectile has made its move by the end of the tick. The counter
  of the hit freeze is lowered by one per tick while it is positive, and nothing else of the
  tick depends on it.
\<close>

theorem hit_pause_skips_player_update:
  "(0 < cf_hit_pause_timer c \<longrightarrow>
      cf_update c = (True, c\<lparr> cf_hit_pause_timer := cf_hit_pause_timer c - 1 \<rparr>))
   \<and> (0 < cf_hit_pause_timer c \<and> pl_combat_feel (hk_player s) = Some c \<longrightarrow>
        pl_update gameplay s
          = Inr (False, s\<lparr> hk_player := (hk_player s)
                   \<lparr> pl_combat_feel := Some (c\<lparr> cf_hit_pause_timer := cf_hit_pause_timer c - 1 \<rparr>) \<rparr> \<rparr>))
   \<and> (0 < cf_hit_pause_timer c \<and> pl_combat_feel (hk_player (g_combat g)) = Some c
        \<and> \<not> g_paused g \<longrightarrow>
        game_update fr g
          = game_after_player fr
              (g\<lparr> g_combat := (g_combat g)\<lparr> hk_player := (hk_player (g_combat g))
                   \<lparr> pl_combat_feel := Some (c\<lparr> cf_hit_pause_timer := cf_hit_pause_timer c - 1 \<rparr>) \<rparr> \<rparr> \<rparr>))
   \<and> (\<not> g_paused g \<and> pl_update (fr_gameplay fr) (g_combat g) = Inr (False, s') \<longrightarrow>
        game_update fr g = game_after_player fr (g\<lparr> g_combat := s' \<rparr>))
   \<and> (0 < cf_hit_pause_timer c \<and> pl_combat_feel (hk_player (g_combat g)) = Some c
        \<and> \<not> g_paused g \<and> fr_enemies fr = Inr \<and> fr_attacks fr = Inr
        \<and> game_update fr g = Inr g' \<longrightarrow>
        g_projectiles g'
          = game_update_projectiles (fr_float fr) (fr_platforms fr) (g_projectiles g))
   \<and> game_update fr (g\<lparr> g_hit_freeze := h \<rparr>)
       = map_sum id (\<lambda>g'. g'\<lparr> g_hit_freeze := (if g_paused g then h else hf_update h) \<rparr>)
           (game_update fr g)
   \<and> (0 < hf_freeze_frames h \<longrightarrow>
        hf_update h = h\<lparr> hf_freeze_frames := hf_freeze_frames h - 1 \<rparr>)"
proof (intro conjI impI)
  assume "0 < cf_hit_pause_timer c"
  then show "cf_update c = (True, c\<lparr> cf_hit_pause_timer := cf_hit_pause_timer c - 1 \<rparr>)"
    by (simp add: cf_update_def)
next
  assume "0 < cf_hit_pause_timer c \<and> pl_combat_feel (hk_player s) = Some c"
  then show "pl_update gameplay s
          = Inr (False, s\<lparr> hk_player := (hk_player s)
                   \<lparr> pl_combat_feel := Some (c\<lparr> cf_hit_pause_timer := cf_hit_pause_timer c - 1 \<rparr>) \<rparr> \<rparr>)"
    by (simp add: pl_update_paused)
next
  assume "0 < cf_hit_pause_timer c \<and> pl_combat_feel (hk_player (g_combat g)) = Some c
        \<and> \<not> g_paused g"
  then show "game_update fr g
          = game_after_player fr
              (g\<lparr> g_combat := (g_combat g)\<lparr> hk_player := (hk_player (g_combat g))
                   \<lparr> pl_combat_feel := Some (c\<lparr> cf_hit_pause_timer := cf_hit_pause_timer c - 1 \<rparr>) \<rparr> \<rparr> \<rparr>)"
    by (simp add: game_update_def pl_update_paused)
next
  assume "\<not> g_paused g \<and> pl_update (fr_gameplay fr) (g_combat g) = Inr (False, s')"
  then show "game_update fr g = game_after_player fr (g\<lparr> g_combat := s' \<rparr>)"
    by (simp add: game_update_def)
next
  assume "0 < cf_hit_pause_timer c \<and> pl_combat_feel (hk_player (g_combat g)) = Some c
        \<and> \<not> g_paused g \<and> fr_enemies fr = Inr \<and> fr_attacks fr = Inr
        \<and> game_update fr g = Inr g'"
  then show "g_projectiles g'
          = game_update_projectiles (fr_float fr) (fr_platforms fr) (g_projectiles g)"
    by (auto simp add: game_update_def pl_update_paused game_after_player_def Let_def
        split: option.splits sum.splits)
next
  show "game_update fr (g\<lparr> g_hit_freeze := h \<rparr>)
       = map_sum id (\<lambda>g'. g'\<lparr> g_hit_freeze := (if g_paused g then h else hf_update h) \<rparr>)
           (game_update fr g)"
    by (rule game_hit_freeze_inert)
next
  assume "0 < hf_freeze_frames h"
  then show "hf_update h = h\<lparr> hf_freeze_frames := hf_freeze_frames h - 1 \<rparr>"
    by (simp add: hf_update_def)
qed

theorem hit_pause_skips_player_update_witness:
  "0 < cf_hit_pause_timer hit_feel
   \<and> cf_update hit_feel = (True, hit_feel\<lparr> cf_hit_pause_timer := 1 \<rparr>)
   \<and> pl_update (fr_gameplay quiet_frame) (g_combat frozen_game)
       = Inr (False, hk_init (demo_player\<lparr> pl_combat_feel := Some (hit_feel\<lparr> cf_hit_pause_timer := 1 \<rparr>) \<rparr>))
   \<and> game_update quiet_frame frozen_game
       = game_after_player quiet_frame
           (frozen_game\<lparr> g_combat :=
              hk_init (demo_player\<lparr> pl_combat_feel := Some (hit_feel\<lparr> cf_hit_pause_timer := 1 \<rparr>) \<rparr>) \<rparr>)
   \<and> pl_update (fr_gameplay quiet_frame) (g_combat demo_game) = Inr (False, g_combat demo_game)
   \<and> game_update quiet_frame demo_game = game_after_player quiet_frame demo_game
   \<and> game_update quiet_frame frozen_game
       = map_sum id (\<lambda>g'. g'\<lparr> g_hit_freeze := \<lparr> hf_freeze_frames = 3, hf_max_freeze = 4 \<rparr> \<rparr>)
           (game_update quiet_frame (frozen_game\<lparr> g_hit_freeze := demo_freeze \<rparr>))
   \<and> (\<exists>g'. game_update quiet_frame frozen_game = Inr g'
          \<and> g_projectiles g'
              = game_update_projectiles (fr_float quiet_frame) (fr_platforms quiet_frame) [demo_bolt])
   \<and> hf_update \<lparr> hf_freeze_frames = 4, hf_max_freeze = 4 \<rparr>
       = \<lparr> hf_freeze_frames = 3, hf_max_freeze = 4 \<rparr>"
proof -
  let ?h = "\<lparr> hf_freeze_frames = 4, hf_max_freeze = 4 \<rparr>"
  have t: "cf_hit_pause_timer hit_feel = 2" by (simp add: hit_feel_eq)
  have c: "g_combat frozen_game = hk_init (demo_player\<lparr> pl_combat_feel := Some hit_feel \<rparr>)"
    "\<not> g_paused frozen_game" "\<not> g_paused demo_game" "g_combat demo_game = hk_init demo_player"
    "g_hit_freeze frozen_game = ?h"
    "frozen_game = (frozen_game\<lparr> g_hit_freeze := demo_freeze \<rparr>)\<lparr> g_hit_freeze := ?h \<rparr>"
    "\<not> g_paused (frozen_game\<lparr> g_hit_freeze := demo_freeze \<rparr>)"
    by (simp_all add: frozen_game_def demo_game_def hf_add_freeze_def demo_freeze_def)
  have p: "pl_combat_feel (hk_player (hk_init (demo_player\<lparr> pl_combat_feel := Some hit_feel \<rparr>)))
             = Some hit_feel"
    "(hk_init (demo_player\<lparr> pl_combat_feel := Some hit_feel \<rparr>))
       \<lparr> hk_player := (hk_player (hk_init (demo_player\<lparr> pl_combat_feel := Some hit_feel \<rparr>)))
            \<lparr> pl_combat_feel := Some (hit_feel\<lparr> cf_hit_pause_timer := 1 \<rparr>) \<rparr> \<rparr>
       = hk_init (demo_player\<lparr> pl_combat_feel := Some (hit_feel\<lparr> cf_hit_pause_timer := 1 \<rparr>) \<rparr>)"
    by (simp_all add: hk_init_def)
  have u: "pl_update (fr_gameplay quiet_frame) (g_combat demo_game) = Inr (False, g_combat demo_game)"
    by (simp add: pl_update_def quiet_frame_def demo_game_def hk_init_def demo_player_def
        cf_update_def cf_init_def Let_def hk_update_def)
  note 1 = hit_pause_skips_player_update[of hit_feel "g_combat frozen_game"
      "fr_gameplay quiet_frame" frozen_game quiet_frame _ _ ?h]
  note 2 = hit_pause_skips_player_update[of hit_feel "g_combat frozen_game"
      "fr_gameplay quiet_frame" demo_game quiet_frame "g_combat demo_game" _ ?h]
  note 3 = hit_pause_skips_player_update[of hit_feel "g_combat frozen_game"
      "fr_gameplay quiet_frame" "frozen_game\<lparr> g_hit_freeze := demo_freeze \<rparr>" quiet_frame _ _ ?h]
  have a: "cf_update hit_feel = (True, hit_feel\<lparr> cf_hit_pause_timer := 1 \<rparr>)"
    using 1 t by simp
  have b: "pl_update (fr_gameplay quiet_frame) (g_combat frozen_game)
       = Inr (False, hk_init (demo_player\<lparr> pl_combat_feel := Some (hit_feel\<lparr> cf_hit_pause_timer := 1 \<rparr>) \<rparr>))"
    using 1 t c(1) p by simp
  have d: "game_update quiet_frame frozen_game
       = game_after_player quiet_frame
           (frozen_game\<lparr> g_combat :=
              hk_init (demo_player\<lparr> pl_combat_feel := Some (hit_feel\<lparr> cf_hit_pause_timer := 1 \<rparr>) \<rparr>) \<rparr>)"
    using 1 t c(1,2) p by simp
  have e: "game_update quiet_frame demo_game = game_after_player quiet_frame demo_game"
    using 2 u c(3) by simp
  have f: "game_update quiet_frame frozen_game
       = map_sum id (\<lambda>g'. g'\<lparr> g_hit_freeze := \<lparr> hf_freeze_frames = 3, hf_max_freeze = 4 \<rparr> \<rparr>)
           (game_update quiet_frame (frozen_game\<lparr> g_hit_freeze := demo_freeze \<rparr>))"
  proof -
    have "game_update quiet_frame ((frozen_game\<lparr> g_hit_freeze := demo_freeze \<rparr>)\<lparr> g_hit_freeze := ?h \<rparr>)
       = map_sum id (\<lambda>g'. g'\<lparr> g_hit_freeze := hf_update ?h \<rparr>)
           (game_update quiet_frame (frozen_game\<lparr> g_hit_freeze := demo_freeze \<rparr>))"
      using 3 c(7) by simp
    then show ?thesis using c(6) by (simp add: hf_update_def)
  qed
  have g: "hf_update ?h = \<lparr> hf_freeze_frames = 3, hf_max_freeze = 4 \<rparr>"
    using 1 by simp
  from frozen_tick obtain g' where r: "game_update quiet_frame frozen_game = Inr g'" by blast
  have q: "fr_enemies quiet_frame = Inr" "fr_attacks quiet_frame = Inr"
    "g_projectiles frozen_game = [demo_bolt]"
    by (simp_all add: quiet_frame_def frozen_game_def demo_game_def)
  note 4 = hit_pause_skips_player_update[of hit_feel "g_combat frozen_game"
      "fr_gameplay quiet_frame" frozen_game quiet_frame _ g' ?h]
  have "g_projectiles g'
          = game_update_projectiles (fr_float quiet_frame) (fr_platforms quiet_frame) [demo_bolt]"
    using 4 t c(1,2) p(1) q r by simp
  with r have k: "\<exists>g'. game_update quiet_frame frozen_game = Inr g'
          \<and> g_projectiles g'
              = game_update_projectiles (fr_float quiet_frame) (fr_platforms quiet_frame) [demo_bolt]"
    by blast
  show ?thesis using t a b d u e f g k by simp
qed

text \<open>
  The claim C9 as stated fails twice, on objects put into the pause by \<open>register_hit\<close> and
  \<open>add_freeze\<close>. The cosmetic timers are not lowered: a combat feel that
  has registered a light hit is in a pause of 2 ticks with the shake timer at 6 and the combo
  timer at 30, and its update leaves both where they are. And the gameplay of the tick is
  not skipped: in a tick of the game with the player in that pause and the hit freeze at 4,
  the bolt flies on from 500 to 506 and loses a tick of its lifetime.
\<close>

theorem frozen_tick_counterexample:
  "cf_hit_pause_timer hit_feel = 2 \<and> cf_shake_timer hit_feel = 6 \<and> cf_combo_timer hit_feel = 30
   \<and> cf_update hit_feel = (True, hit_feel\<lparr> cf_hit_pause_timer := 1 \<rparr>)
   \<and> cf_shake_timer (snd (cf_update hit_feel)) = 6
   \<and> cf_combo_timer (snd (cf_update hit_feel)) = 30
   \<and> pl_combat_feel (hk_player (g_combat frozen_game)) = Some hit_feel
   \<and> hf_freeze_frames (g_hit_freeze frozen_game) = 4
   \<and> g_projectiles frozen_game = [demo_bolt]
   \<and> game_update quiet_frame frozen_game
       = Inr (frozen_game
           \<lparr> g_combat :=
               hk_init (demo_player\<lparr> pl_combat_feel := Some (hit_feel\<lparr> cf_hit_pause_timer := 1 \<rparr>) \<rparr>),
             g_projectiles :=
               [demo_bolt\<lparr> pr_x := 506, pr_rect := \<lparr> r_x = 500, r_y = 94, r_w = 12, r_h = 12 \<rparr>,
                           pr_lifetime := 179 \<rparr>],
             g_hit_freeze := \<lparr> hf_freeze_frames = 3, hf_max_freeze = 4 \<rparr> \<rparr>)"
proof -
  have 1: "cf_hit_pause_timer hit_feel = 2" "cf_shake_timer hit_feel = 6"
    "cf_combo_timer hit_feel = 30"
    "cf_update hit_feel = (True, hit_feel\<lparr> cf_hit_pause_timer := 1 \<rparr>)"
    by (simp_all add: hit_feel_eq cf_update_def cf_init_def)
  have 2: "pl_combat_feel (hk_player (g_combat frozen_game)) = Some hit_feel"
    "hf_freeze_frames (g_hit_freeze frozen_game) = 4" "g_projectiles frozen_game = [demo_bolt]"
    by (simp_all add: frozen_game_def demo_game_def hk_init_def hf_add_freeze_def demo_freeze_def)
  show ?thesis using 1 2 frozen_tick by simp
qed

text \<open>
  C10. While a boss is invulnerable, or its \<open>can_take_damage\<close> flag is false,
  \<open>take_damage\<close> returns without changing anything, whatever the damage and the knockback.
\<close>

theorem protected_boss_ignores_damage:
  "b_is_invulnerable b \<or> \<not> b_can_take_damage b \<Longrightarrow> b_take_damage damage kx ky b = Inr b"
  by (simp add: b_take_damage_def)

theorem protected_boss_ignores_damage_witness:
  "b_is_invulnerable ((b_play_intro three_phase_boss)\<lparr> b_is_invulnerable := True \<rparr>)
   \<and> b_take_damage 35 4 (- 2) ((b_play_intro three_phase_boss)\<lparr> b_is_invulnerable := True \<rparr>)
       = Inr ((b_play_intro three_phase_boss)\<lparr> b_is_invulnerable := True \<rparr>)"
proof -
  have h: "b_is_invulnerable ((b_play_intro three_phase_boss)\<lparr> b_is_invulnerable := True \<rparr>)"
    by simp
  then show ?thesis using protected_boss_ignores_damage[of _ 35 4 "- 2"] by blast
qed

end
